theory Spec2Isabelle
  imports Main "HOL-Library.AList"
begin

section \<open>Python values, exceptions and log records\<close>

text \<open>
  The fragment of Python's value space the modelled functions exchange. \<open>truthy\<close> is
  Python's truth test, as \<^verbatim>\<open>if not x\<close> applies it: \<^verbatim>\<open>None\<close>, \<^verbatim>\<open>False\<close>,
  zero and the empty string, list and dictionary are false, everything else is true.
\<close>

datatype pyval =
    PyNone
  | PyBool bool
  | PyInt int
  | PyStr string
  | PyList "pyval list"
  | PyDict "(string \<times> pyval) list"
  | PyObject string

fun truthy :: "pyval \<Rightarrow> bool" where
  "truthy PyNone = False"
| "truthy (PyBool b) = b"
| "truthy (PyInt i) = (i \<noteq> 0)"
| "truthy (PyStr s) = (s \<noteq> [])"
| "truthy (PyList xs) = (xs \<noteq> [])"
| "truthy (PyDict kvs) = (kvs \<noteq> [])"
| "truthy (PyObject name) = True"

text \<open>
  Exceptions are values. \<open>JSAProcError\<close> and \<open>NoRowsError\<close> are the two classes
  \<^verbatim>\<open>run.py\<close> imports from \<^verbatim>\<open>jsa_proc.error\<close>; \<open>CalledProcessError\<close> carries the exit
  status of a subprocess; \<open>PyException\<close> stands for any other class a collaborator
  may raise (class name and message).
\<close>

datatype error =
    JSAProcError string
  | NoRowsError string
  | CalledProcessError int
  | TypeError string
  | PyException string string

fun error_category :: "error \<Rightarrow> string" where
  "error_category (JSAProcError m) = ''JSAProcError''"
| "error_category (NoRowsError m) = ''NoRowsError''"
| "error_category (CalledProcessError n) = ''CalledProcessError''"
| "error_category (TypeError m) = ''TypeError''"
| "error_category (PyException c m) = c"

datatype level = LogDebug | LogInfo | LogWarning | LogError

subsection \<open>String formatting\<close>

text \<open>\<^verbatim>\<open>'%i' % n\<close>: the decimal digits of an integer, with a minus sign when negative.\<close>

definition digit_char :: "nat \<Rightarrow> char" where
  "digit_char n = ''0123456789'' ! (n mod 10)"

fun digits10 :: "nat \<Rightarrow> string" where
  "digits10 n = (if n < 10 then [digit_char n] else digits10 (n div 10) @ [digit_char n])"

declare digits10.simps [simp del]

definition str_int :: "int \<Rightarrow> string" where
  "str_int i = (if i < 0 then CHR ''-'' # digits10 (nat (- i)) else digits10 (nat i))"

fun error_description :: "error \<Rightarrow> string" where
  "error_description (JSAProcError m) = m"
| "error_description (NoRowsError m) = m"
| "error_description (CalledProcessError n) = ''Command returned non-zero exit status '' @ str_int n"
| "error_description (TypeError m) = m"
| "error_description (PyException c m) = m"

text \<open>\<^verbatim>\<open>os.path.join(a, b)\<close> for two components on a POSIX system.\<close>

definition os_path_join :: "string \<Rightarrow> string \<Rightarrow> string" where
  "os_path_join a b =
     (if b \<noteq> [] \<and> hd b = CHR ''/'' then b
      else if a = [] \<or> last a = CHR ''/'' then a @ b
      else a @ ''/'' @ b)"

section \<open>The job table\<close>

text \<open>
  The lifecycle states the specification names. The enumeration itself
  (\<^verbatim>\<open>jsa_proc.state\<close>) is not among the source files; \<open>QUEUED\<close> stands for the
  queue phase that precedes \<open>WAITING\<close>.
\<close>

datatype JSAProcState = QUEUED | WAITING | RUNNING | PROCESSED | ERROR

text \<open>
  One row of the job table, with the fields of the specification's data model. The
  \<open>id\<close> is the key of the table, so it is not repeated in the row. \<open>output_files\<close> is
  empty until it is set; every \<open>log\<close> entry carries the state it was written for.
\<close>

record job =
  state :: JSAProcState
  qa_state :: string
  location :: string
  mode :: string
  parameters :: string
  priority :: int
  output_files :: "string list"
  log :: "(JSAProcState \<times> string) list"

type_synonym jobtable = "(int \<times> job) list"

text \<open>
  Modelled from the spec: \<^verbatim>\<open>db.change_state\<close> of the job store client
  (\<^verbatim>\<open>jsa_proc.db\<close>), which is not among the source files. Section 4.2: atomically, if
  and only if the job's current state equals the expected prior state, set the new
  state and append the message to the log, otherwise change nothing; zero rows
  affected is signalled as a conflict (\<open>NoRowsError\<close>); with the expected prior state
  omitted (\<open>None\<close>) the transition is unconditional. A job id with no row affects zero
  rows in either mode.
\<close>

definition change_state ::
  "int \<Rightarrow> JSAProcState \<Rightarrow> string \<Rightarrow> JSAProcState option \<Rightarrow> jobtable \<Rightarrow> error + jobtable" where
  "change_state job_id newstate message state_prev tbl =
     (case map_of tbl job_id of
        None \<Rightarrow> Inl (NoRowsError ''job'')
      | Some j \<Rightarrow>
          if state_prev = None \<or> state_prev = Some (state j)
          then Inr (AList.update job_id
                 (j\<lparr>state := newstate, log := log j @ [(newstate, message)]\<rparr>) tbl)
          else Inl (NoRowsError ''job''))"

text \<open>
  Modelled from the spec: \<^verbatim>\<open>db.get_job\<close>, \<^verbatim>\<open>db.set_output_files\<close> and
  \<^verbatim>\<open>db.find_jobs\<close> of the same absent store client (sections 4.1 and 6). \<open>get_job\<close>
  reads a row, \<open>set_output_files\<close> records the artifact names of a job, and
  \<open>find_jobs\<close> filters by state and location, orders by descending priority when
  asked to prioritize (ties keep the order of the table) and returns at most
  \<open>number\<close> rows, the empty list when none is eligible. The specification gives the
  flag \<^verbatim>\<open>sort\<close> no effect of its own, and it has none here.
\<close>

definition get_job :: "int \<Rightarrow> jobtable \<Rightarrow> error + job" where
  "get_job job_id tbl =
     (case map_of tbl job_id of None \<Rightarrow> Inl (NoRowsError ''job'') | Some j \<Rightarrow> Inr j)"

definition set_output_files :: "int \<Rightarrow> string list \<Rightarrow> jobtable \<Rightarrow> jobtable" where
  "set_output_files job_id files tbl =
     (case map_of tbl job_id of
        None \<Rightarrow> tbl
      | Some j \<Rightarrow> AList.update job_id (j\<lparr>output_files := files\<rparr>) tbl)"

definition find_jobs ::
  "JSAProcState \<Rightarrow> string \<Rightarrow> bool \<Rightarrow> nat \<Rightarrow> bool \<Rightarrow> jobtable \<Rightarrow> (int \<times> job) list" where
  "find_jobs st loc prioritize number sorted_ids tbl =
     (let eligible = filter (\<lambda>(i, j). state j = st \<and> location j = loc) tbl;
          ordered = (if prioritize then sort_key (\<lambda>(i, j). - priority j) eligible else eligible)
      in take number ordered)"

text \<open>
  The store is shared: while one worker blocks in the pipeline, other processes act on
  the table through the same client. Each of their calls either applies or fails for
  them; no call removes a row.
\<close>

datatype store_call =
    Other_Change_State int JSAProcState string "JSAProcState option"
  | Other_Set_Output_Files int "string list"

fun other_process :: "jobtable \<Rightarrow> store_call \<Rightarrow> jobtable" where
  "other_process tbl (Other_Change_State i s m p) =
     (case change_state i s m p tbl of Inl e \<Rightarrow> tbl | Inr tbl' \<Rightarrow> tbl')"
| "other_process tbl (Other_Set_Output_Files i fs) = set_output_files i fs tbl"


definition other_processes :: "store_call list \<Rightarrow> jobtable \<Rightarrow> jobtable" where
  "other_processes calls tbl = foldl other_process tbl calls"

section \<open>The worker's world\<close>

text \<open>
  What a run can change or observe: the job table, the paths (files and directories)
  that exist on storage, and the sequence of calls the process makes to its logger, to
  the store client and to its collaborators, in the order it makes them.
\<close>

datatype event =
    Log level string
  | Find_Jobs JSAProcState string bool nat bool
  | Change_State int JSAProcState string "JSAProcState option"
  | Get_Job int
  | Set_Output_Files int "string list"
  | Jsawrapdr_Run int string string string string string bool
  | Get_Output_Files int
  | Check_Call "string list" "string option"

record world =
  db :: jobtable
  paths :: "string list"
  trace :: "event list"

text \<open>
  The collaborators \<^verbatim>\<open>run.py\<close> imports but the source files do not contain, as
  parameters: the host name, the input directory of a job, the outcome of the pipeline
  (\<^verbatim>\<open>jsawrapdr_run\<close>: the log it returns, or the exception it raises) and of the
  enumeration of its artifacts (\<^verbatim>\<open>get_output_files\<close>), and the calls other
  processes make to the store while the pipeline runs.
\<close>

record env =
  gethostname :: string
  get_input_dir :: "int \<Rightarrow> string"
  jsawrapdr_run :: "int \<Rightarrow> string \<Rightarrow> string \<Rightarrow> string \<Rightarrow> string \<Rightarrow> string \<Rightarrow> bool \<Rightarrow> error + string"
  get_output_files :: "int \<Rightarrow> error + string list"
  others :: "store_call list"

type_synonym 'a prog = "world \<Rightarrow> (error + 'a) \<times> world"

definition return :: "'a \<Rightarrow> 'a prog" where
  "return x w = (Inr x, w)"

definition raise :: "error \<Rightarrow> 'a prog" where
  "raise exc w = (Inl exc, w)"

definition and_then :: "'a prog \<Rightarrow> ('a \<Rightarrow> 'b prog) \<Rightarrow> 'b prog" where
  "and_then p f w = (case p w of (Inl exc, w') \<Rightarrow> (Inl exc, w') | (Inr x, w') \<Rightarrow> f x w')"

text \<open>
  \<^verbatim>\<open>try: p  except C: h\<close>, where \<open>caught\<close> tells the exceptions of class \<^verbatim>\<open>C\<close>:
  only those are handled, every other exception passes.
\<close>

definition try_except :: "'a prog \<Rightarrow> (error \<Rightarrow> bool) \<Rightarrow> 'a prog \<Rightarrow> 'a prog" where
  "try_except p caught h w =
     (case p w of
        (Inl exc, w') \<Rightarrow> if caught exc then h w' else (Inl exc, w')
      | (Inr x, w') \<Rightarrow> (Inr x, w'))"

fun is_NoRowsError :: "error \<Rightarrow> bool" where
  "is_NoRowsError (NoRowsError m) = True"
| "is_NoRowsError exc = False"

fun is_CalledProcessError :: "error \<Rightarrow> bool" where
  "is_CalledProcessError (CalledProcessError n) = True"
| "is_CalledProcessError exc = False"

definition os_path_exists :: "string \<Rightarrow> bool prog" where
  "os_path_exists p w = (Inr (p \<in> set (paths w)), w)"

definition record_event :: "event \<Rightarrow> world \<Rightarrow> world" where
  "record_event ev w = w\<lparr>trace := trace w @ [ev]\<rparr>"

definition logger :: "level \<Rightarrow> string \<Rightarrow> unit prog" where
  "logger lvl msg w = (Inr (), record_event (Log lvl msg) w)"

definition db_change_state ::
  "int \<Rightarrow> JSAProcState \<Rightarrow> string \<Rightarrow> JSAProcState option \<Rightarrow> unit prog" where
  "db_change_state job_id newstate message state_prev w =
     (let w' = record_event (Change_State job_id newstate message state_prev) w
      in case change_state job_id newstate message state_prev (db w') of
           Inl exc \<Rightarrow> (Inl exc, w')
         | Inr tbl \<Rightarrow> (Inr (), w'\<lparr>db := tbl\<rparr>))"

definition db_get_job :: "int \<Rightarrow> job prog" where
  "db_get_job job_id w =
     (let w' = record_event (Get_Job job_id) w in (get_job job_id (db w'), w'))"

definition db_set_output_files :: "int \<Rightarrow> string list \<Rightarrow> unit prog" where
  "db_set_output_files job_id files w =
     (let w' = record_event (Set_Output_Files job_id files) w
      in (Inr (), w'\<lparr>db := set_output_files job_id files (db w')\<rparr>))"

definition db_find_jobs ::
  "JSAProcState \<Rightarrow> string \<Rightarrow> bool \<Rightarrow> nat \<Rightarrow> bool \<Rightarrow> (int \<times> job) list prog" where
  "db_find_jobs st loc prioritize number sorted_ids w =
     (let w' = record_event (Find_Jobs st loc prioritize number sorted_ids) w
      in (Inr (find_jobs st loc prioritize number sorted_ids (db w')), w'))"

text \<open>
  The blocking pipeline call of \<^verbatim>\<open>run_a_job\<close>, with the keyword arguments it passes.
  The other processes' calls reach the store while it blocks.
\<close>

definition call_jsawrapdr_run :: "env \<Rightarrow> int \<Rightarrow> string \<Rightarrow> string \<Rightarrow> string \<Rightarrow> string prog" where
  "call_jsawrapdr_run e job_id lis md drparameters w =
     (let w' = record_event (Jsawrapdr_Run job_id lis md drparameters ''cadc'' ''JAC'' True) w
      in (jsawrapdr_run e job_id lis md drparameters ''cadc'' ''JAC'' True,
          w'\<lparr>db := other_processes (others e) (db w')\<rparr>))"

definition call_get_output_files :: "env \<Rightarrow> int \<Rightarrow> string list prog" where
  "call_get_output_files e job_id w =
     (get_output_files e job_id, record_event (Get_Output_Files job_id) w)"

section \<open>\<^verbatim>\<open>jsa_proc/action/run.py\<close>\<close>

text \<open>
  The body of \<^verbatim>\<open>run_a_job\<close> (lines 78 to 137), before decoration, in two parts.
  \<open>run_claimed_job\<close> is what follows the claim (lines 101 to 137): the check of the
  input file list, the pipeline, the output files and the final transition.
  \<open>input_file_list\<close> is the path line 103 computes. The store handle \<^verbatim>\<open>db\<close> of
  \<^verbatim>\<open>run_job\<close> and \<^verbatim>\<open>run_a_job\<close> is the job table of the world.
\<close>

definition input_file_list :: "env \<Rightarrow> int \<Rightarrow> string" where
  "input_file_list e job_id = os_path_join (get_input_dir e job_id) ''input_files_job.lis''"

definition run_claimed_job :: "env \<Rightarrow> int \<Rightarrow> int option prog" where
  "run_claimed_job e job_id =
     and_then (os_path_exists (input_file_list e job_id)) (\<lambda>found.
     if \<not> found
     then raise (JSAProcError
            (''Input file list '' @ input_file_list e job_id @ '' not found for job_id ''
               @ str_int job_id))
     else
       and_then (db_get_job job_id) (\<lambda>jb.
       and_then (logger LogDebug
          (''Launching jsawrapdr: mode='' @ mode jb @ '', parameters='' @ parameters jb)) (\<lambda>_.
       and_then (call_jsawrapdr_run e job_id (input_file_list e job_id)
                   (mode jb) (parameters jb)) (\<lambda>lg.
       and_then (logger LogDebug ''Preparing list of output files'') (\<lambda>_.
       and_then (call_get_output_files e job_id) (\<lambda>files.
       and_then (logger LogDebug ''Storing list of output files'') (\<lambda>_.
       and_then (db_set_output_files job_id files) (\<lambda>_.
       and_then (db_change_state job_id PROCESSED
          ''Job has been sucessfully processed'' (Some RUNNING)) (\<lambda>_.
       and_then (logger LogInfo (''Done running job '' @ str_int job_id)) (\<lambda>_.
       return (Some job_id)))))))))))"

text \<open>
  The first part (lines 78 to 99) claims the job: the transition to \<open>RUNNING\<close>, which
  expects \<open>WAITING\<close> unless \<^verbatim>\<open>force\<close> is set, inside the \<^verbatim>\<open>try\<close> whose handler logs
  and returns \<^verbatim>\<open>None\<close>.
\<close>

definition run_a_job_body :: "env \<Rightarrow> int \<Rightarrow> bool \<Rightarrow> int option prog" where
  "run_a_job_body e job_id force =
     and_then (logger LogInfo (''About to run job '' @ str_int job_id)) (\<lambda>_.
     and_then
       (try_except
          (and_then
             (db_change_state job_id RUNNING
                (''Job is about to be run on host '' @ gethostname e)
                (if force then None else Some WAITING))
             (\<lambda>_. return True))
          is_NoRowsError
          (and_then
             (logger LogError
                (''Job '' @ str_int job_id @ '' cannot be run because it is not waiting''))
             (\<lambda>_. return False)))
       (\<lambda>claimed. if \<not> claimed then return None else run_claimed_job e job_id))"

text \<open>
  Modelled from the spec: \<^verbatim>\<open>ErrorDecorator\<close> (\<^verbatim>\<open>jsa_proc.action.decorators\<close>), which
  is not among the source files. Section 4.4: a result is passed through unchanged; on
  any exception that reaches the wrapper, the failure's category and description are
  recorded in the job's log and the job is moved to \<open>ERROR\<close> by an unconditional
  transition (one transition, whose log entry is that record), and the exception is
  not re-raised: the caller gets \<^verbatim>\<open>None\<close>. Section 7: when the store cannot even
  record the error, that failure surfaces to the caller.
\<close>

definition ErrorDecorator :: "(int \<Rightarrow> 'a option prog) \<Rightarrow> int \<Rightarrow> 'a option prog" where
  "ErrorDecorator function job_id w =
     (case function job_id w of
        (Inr result, w') \<Rightarrow> (Inr result, w')
      | (Inl exc, w') \<Rightarrow>
          and_then
            (db_change_state job_id ERROR
               (error_category exc @ '': '' @ error_description exc) None)
            (\<lambda>_. return None) w')"

definition run_a_job :: "env \<Rightarrow> int \<Rightarrow> bool \<Rightarrow> int option prog" where
  "run_a_job e job_id force = ErrorDecorator (\<lambda>jid. run_a_job_body e jid force) job_id"

text \<open>
  \<^verbatim>\<open>run_job\<close> (lines 31 to 64). \<^verbatim>\<open>if not job_id\<close> holds for \<^verbatim>\<open>None\<close> and for
  \<open>0\<close>; on that branch \<^verbatim>\<open>force\<close> is overwritten with \<^verbatim>\<open>False\<close> before a job is
  looked for. The first part yields the job id and the \<^verbatim>\<open>force\<close> flag the final call
  is made with, or nothing when the function has returned early.
\<close>

definition run_job :: "env \<Rightarrow> int option \<Rightarrow> bool \<Rightarrow> unit prog" where
  "run_job e job_id force =
     (let next_job =
            and_then (logger LogDebug ''Looking for a job to run'') (\<lambda>_.
            and_then (db_find_jobs WAITING ''JAC'' True 1 True) (\<lambda>jobs.
              case jobs of
                j # _ \<Rightarrow> return (Some (fst j, False))
              | [] \<Rightarrow>
                  and_then (logger LogWarning ''Did not find a job to run!'') (\<lambda>_.
                  return None)))
      in
        and_then
          (case job_id of
             None \<Rightarrow> next_job
           | Some jid \<Rightarrow> if jid = 0 then next_job else return (Some (jid, force)))
          (\<lambda>selected.
             case selected of
               None \<Rightarrow> return ()
             | Some (jid, frc) \<Rightarrow> and_then (run_a_job e jid frc) (\<lambda>_. return ())))"

section \<open>\<^verbatim>\<open>scripts/state_machine_jac.py\<close>\<close>

text \<open>
  The script after its arguments are parsed (lines 40 to 53). \<^verbatim>\<open>get_database\<close> and
  \<^verbatim>\<open>poll_jac_jobs\<close> are collaborators outside the source files: each returns or
  raises. An exception nobody catches ends the interpreter with status 1;
  \<^verbatim>\<open>sys.exit(1)\<close> ends it with status 1; running off the end of the script ends it
  with status 0.
\<close>

definition state_machine_jac ::
  "bool \<Rightarrow> (error + 'db) \<Rightarrow> ('db \<Rightarrow> error + pyval) \<Rightarrow> int" where
  "state_machine_jac verbose get_database poll_jac_jobs =
     (case get_database of
        Inl exc \<Rightarrow> 1
      | Inr database \<Rightarrow>
          (case poll_jac_jobs database of
             Inl exc \<Rightarrow> 1
           | Inr status \<Rightarrow> if \<not> truthy status then 1 else 0))"

section \<open>\<^verbatim>\<open>jsa_proc/web\<close>: the error summary page\<close>

text \<open>
  How Python binds the arguments of a call to a function whose parameters are all
  plain (no defaults, no \<^verbatim>\<open>*args\<close>, no \<^verbatim>\<open>**kwargs\<close>): positional arguments fill the
  parameters from the left, each keyword argument must name a parameter that is still
  free, and every parameter must end up bound. Anything else is a \<open>TypeError\<close>, raised
  before the body runs.
\<close>

fun bind_keywords ::
  "string \<Rightarrow> string list \<Rightarrow> (string \<times> pyval) list \<Rightarrow> (string \<times> pyval) list
     \<Rightarrow> error + (string \<times> pyval) list" where
  "bind_keywords name ps bound [] = Inr bound"
| "bind_keywords name ps bound ((k, v) # kws) =
     (if k \<notin> set ps
      then Inl (TypeError
             (name @ ''() got an unexpected keyword argument '' @ [CHR 0x27] @ k @ [CHR 0x27]))
      else if map_of bound k \<noteq> None
      then Inl (TypeError
             (name @ ''() got multiple values for keyword argument '' @ [CHR 0x27] @ k @ [CHR 0x27]))
      else bind_keywords name ps (bound @ [(k, v)]) kws)"

definition call_function ::
  "string \<Rightarrow> string list \<Rightarrow> (pyval list \<Rightarrow> error + 'a) \<Rightarrow> pyval list
     \<Rightarrow> (string \<times> pyval) list \<Rightarrow> error + 'a" where
  "call_function name ps body args kwargs =
     (if length ps < length args
      then Inl (TypeError (name @ ''() takes fewer arguments than given''))
      else case bind_keywords name ps (zip ps args) kwargs of
             Inl exc \<Rightarrow> Inl exc
           | Inr bound \<Rightarrow>
               (case those (map (map_of bound) ps) of
                  None \<Rightarrow> Inl (TypeError (name @ ''() takes more arguments than given''))
                | Some vals \<Rightarrow> body vals))"

text \<open>
  \<^verbatim>\<open>prepare_error_summary(db)\<close> of \<^verbatim>\<open>error_summary.py\<close>: one parameter. Its body asks
  the store for the error logs of each location in turn; \<^verbatim>\<open>db.find_errors_logs\<close>
  belongs to the absent store client and is a parameter here.
\<close>

fun collect_errors_logs ::
  "(pyval \<Rightarrow> string \<Rightarrow> error + pyval) \<Rightarrow> pyval \<Rightarrow> string list \<Rightarrow> error + (string \<times> pyval) list" where
  "collect_errors_logs find_errors_logs database [] = Inr []"
| "collect_errors_logs find_errors_logs database (l # ls) =
     (case find_errors_logs database l of
        Inl exc \<Rightarrow> Inl exc
      | Inr logs \<Rightarrow>
          (case collect_errors_logs find_errors_logs database ls of
             Inl exc \<Rightarrow> Inl exc
           | Inr rest \<Rightarrow> Inr ((l, logs) # rest)))"

fun prepare_error_summary_body ::
  "(pyval \<Rightarrow> string \<Rightarrow> error + pyval) \<Rightarrow> pyval list \<Rightarrow> error + pyval" where
  "prepare_error_summary_body find_errors_logs [database] =
     (case collect_errors_logs find_errors_logs database [''JAC'', ''CADC''] of
        Inl exc \<Rightarrow> Inl exc
      | Inr error_dict \<Rightarrow>
          Inr (PyDict [(''title'', PyStr ''Errors in JSA Processing Jobs''),
                       (''job_summary_dict'', PyDict error_dict)]))"
| "prepare_error_summary_body find_errors_logs vals =
     Inl (TypeError ''prepare_error_summary() takes exactly 1 argument'')"

definition prepare_error_summary ::
  "(pyval \<Rightarrow> string \<Rightarrow> error + pyval) \<Rightarrow> pyval list \<Rightarrow> (string \<times> pyval) list \<Rightarrow> error + pyval" where
  "prepare_error_summary find_errors_logs =
     call_function ''prepare_error_summary'' [''db''] (prepare_error_summary_body find_errors_logs)"

text \<open>
  The handler of the route \<^verbatim>\<open>/error_summary/\<close> in \<^verbatim>\<open>flask_app.py\<close> (lines 171 to
  179). \<^verbatim>\<open>request.args.get(k, None)\<close> is the query parameter or \<^verbatim>\<open>None\<close>.
\<close>

definition request_args_get :: "(string \<times> string) list \<Rightarrow> string \<Rightarrow> pyval" where
  "request_args_get args k = (case map_of args k of None \<Rightarrow> PyNone | Some v \<Rightarrow> PyStr v)"

definition error_summary ::
  "(pyval \<Rightarrow> string \<Rightarrow> error + pyval) \<Rightarrow> pyval \<Rightarrow> (string \<times> string) list \<Rightarrow> error + pyval" where
  "error_summary find_errors_logs database request_args =
     prepare_error_summary find_errors_logs [database]
       [(''filtering'', request_args_get request_args ''filtering''),
        (''chosentask'', request_args_get request_args ''chosentask''),
        (''extrafilter'', request_args_get request_args ''extrafilter'')]"

section \<open>\<^verbatim>\<open>jsa_proc/cadc/rawingest.py\<close>\<close>

text \<open>
  \<^verbatim>\<open>obsid_date = re.compile('_(\d{8})T')\<close> and its \<^verbatim>\<open>search\<close>: the leftmost place
  where an underscore, eight decimal digits and a capital T follow one another; the
  result is the group of eight digits.
\<close>

definition is_digit :: "char \<Rightarrow> bool" where
  "is_digit c = (c \<in> set ''0123456789'')"

fun match_obsid_date :: "string \<Rightarrow> string option" where
  "match_obsid_date [] = None"
| "match_obsid_date (c # rest) =
     (if c = CHR ''_'' \<and> 9 \<le> length rest \<and> list_all is_digit (take 8 rest)
         \<and> rest ! 8 = CHR ''T''
      then Some (take 8 rest) else None)"

fun obsid_date_search :: "string \<Rightarrow> string option" where
  "obsid_date_search [] = None"
| "obsid_date_search (c # cs) =
     (case match_obsid_date (c # cs) of
        Some date \<Rightarrow> Some date
      | None \<Rightarrow> obsid_date_search cs)"

text \<open>
  The collaborators of \<^verbatim>\<open>ingest_raw_observation\<close>: the scratch directory
  \<^verbatim>\<open>make_misc_scratch_dir\<close> creates, the log directory \<^verbatim>\<open>get_misc_log_dir\<close> names, and
  what the external command does when run with given arguments in a given working
  directory: its exit status and the names it leaves in that directory. The operating
  system itself is taken to work: directories and files can be created and removed and
  the command can be started.
\<close>

record ingest_env =
  make_misc_scratch_dir :: "string \<Rightarrow> string"
  get_misc_log_dir :: "string \<Rightarrow> string"
  run_process :: "string list \<Rightarrow> string option \<Rightarrow> int \<times> string list"

definition create_path :: "string \<Rightarrow> world \<Rightarrow> world" where
  "create_path p w = (if p \<in> set (paths w) then w else w\<lparr>paths := paths w @ [p]\<rparr>)"

definition call_make_misc_scratch_dir :: "ingest_env \<Rightarrow> string \<Rightarrow> string prog" where
  "call_make_misc_scratch_dir e name w =
     (Inr (make_misc_scratch_dir e name), create_path (make_misc_scratch_dir e name) w)"

definition os_makedirs :: "string \<Rightarrow> unit prog" where
  "os_makedirs p w = (Inr (), create_path p w)"

definition open_for_writing :: "string \<Rightarrow> unit prog" where
  "open_for_writing p w = (Inr (), create_path p w)"

text \<open>
  \<^verbatim>\<open>subprocess.check_call\<close>: runs the command to its end and raises
  \<open>CalledProcessError\<close> when the exit status is not zero.
\<close>

definition subprocess_check_call :: "ingest_env \<Rightarrow> string list \<Rightarrow> string option \<Rightarrow> unit prog" where
  "subprocess_check_call e command cwd w =
     (let status = fst (run_process e command cwd);
          created = map (os_path_join (case cwd of None \<Rightarrow> ''.'' | Some d \<Rightarrow> d))
                      (snd (run_process e command cwd));
          w' = fold create_path created (record_event (Check_Call command cwd) w)
      in if status \<noteq> 0 then (Inl (CalledProcessError status), w') else (Inr (), w'))"

text \<open>\<^verbatim>\<open>shutil.rmtree(d)\<close> removes the directory and everything below it.\<close>

definition below :: "string \<Rightarrow> string \<Rightarrow> bool" where
  "below d p = (p = d \<or> take (Suc (length d)) p = d @ ''/'')"

definition shutil_rmtree :: "string option \<Rightarrow> unit prog" where
  "shutil_rmtree dir w =
     (case dir of
        None \<Rightarrow> (Inl (TypeError ''rmtree: path is None''), w)
      | Some d \<Rightarrow> (Inr (), w\<lparr>paths := filter (\<lambda>p. \<not> below d p) (paths w)\<rparr>))"

fun join_words :: "string list \<Rightarrow> string" where
  "join_words [] = []"
| "join_words [x] = x"
| "join_words (x # y # ys) = x @ '' '' @ join_words (y # ys)"

text \<open>\<^verbatim>\<open>ingest_raw_observation\<close> (lines 33 to 98).\<close>

definition ingest_raw_observation :: "ingest_env \<Rightarrow> string \<Rightarrow> bool \<Rightarrow> unit prog" where
  "ingest_raw_observation e obsid dry_run =
     and_then (logger LogDebug (''Starting raw ingestion of OBSID '' @ obsid)) (\<lambda>_.
     case obsid_date_search obsid of
       None \<Rightarrow>
         and_then (logger LogError (''Cannot parser OBSID '' @ obsid @ '' to obtain date'')) (\<lambda>_.
         raise (JSAProcError (''Cannot find date in OBSID '' @ obsid)))
     | Some date \<Rightarrow>
         let year = take 4 date; month = take 2 (drop 4 date); day = drop 6 date in
         and_then (logger LogDebug
            (''Parsed OBSID, date: '' @ month @ ''/'' @ day @ ''/'' @ year)) (\<lambda>_.
         and_then
           (if \<not> dry_run
            then and_then (call_make_misc_scratch_dir e ''rawingest'') (\<lambda>d.
                 and_then (logger LogInfo (''Working directory: '' @ d)) (\<lambda>_.
                 return (Some d)))
            else return None) (\<lambda>scratch_dir.
         and_then
           (if \<not> dry_run
            then
              let log_dir = os_path_join (os_path_join (os_path_join
                              (get_misc_log_dir e ''rawingest'') year) month) day
              in
                and_then (os_path_exists log_dir) (\<lambda>found.
                and_then (if \<not> found then os_makedirs log_dir else return ()) (\<lambda>_.
                and_then (logger LogInfo (''Log directory: '' @ log_dir)) (\<lambda>_.
                let log_file = os_path_join log_dir (obsid @ ''.log'') in
                and_then (logger LogDebug (''Log file: '' @ log_file)) (\<lambda>_.
                return log_file))))
            else return ''DRY_RUN_MODE'') (\<lambda>log_file.
         let command = [''jsaraw'', ''--collection'', ''JCMT'', ''--key'', obsid,
                        ''--log'', log_file @ ''.full'', ''--debug'']
         in
         and_then
           (try_except
              (if \<not> dry_run
               then and_then (open_for_writing log_file) (\<lambda>_.
                    and_then (logger LogInfo
                       (''Running '' @ hd command @ '' for OBSID '' @ obsid)) (\<lambda>_.
                    subprocess_check_call e command scratch_dir))
               else logger LogInfo
                      (''Would have run: '' @ [CHR 0x22] @ join_words command @ [CHR 0x22]
                         @ '' (DRY RUN)''))
              is_CalledProcessError
              (logger LogError ''Error during CAOM-2 ingestion'')) (\<lambda>_.
         if \<not> dry_run
         then and_then (logger LogDebug ''Deleting scratch directory'') (\<lambda>_.
              shutil_rmtree scratch_dir)
         else return ())))))"

section \<open>Vocabulary of the statements and concrete inputs\<close>

text \<open>
  The calls a run adds to the trace, and among them the attempts to claim a job: the
  transitions to \<open>RUNNING\<close>, each with the job id and the prior state it expects.
\<close>

definition new_events :: "world \<Rightarrow> world \<Rightarrow> event list" where
  "new_events w w' = drop (length (trace w)) (trace w')"

fun claim_attempts :: "event list \<Rightarrow> (int \<times> JSAProcState option) list" where
  "claim_attempts [] = []"
| "claim_attempts (Change_State i RUNNING m p # evs) = (i, p) # claim_attempts evs"
| "claim_attempts (ev # evs) = claim_attempts evs"

text \<open>
  A job that waits at JAC, a host whose pipeline succeeds and leaves one artifact, and
  a world that holds the job and its input file list.
\<close>

definition job7 :: job where
  "job7 = \<lparr>state = WAITING, qa_state = ''?'', location = ''JAC'', mode = ''obs'',
            parameters = [], priority = 0, output_files = [], log = []\<rparr>"

definition host_env :: env where
  "host_env = \<lparr>gethostname = ''h'',
                get_input_dir = (\<lambda>i. ''/in/'' @ str_int i),
                jsawrapdr_run = (\<lambda>i lis md ps cleanup loc persist. Inr ''log''),
                get_output_files = (\<lambda>i. Inr [''a.fits'']),
                others = []\<rparr>"

definition waiting_world :: world where
  "waiting_world = \<lparr>db = [(7, job7)], paths = [''/in/7/input_files_job.lis''], trace = []\<rparr>"




section \<open>The poller's command-line driver\<close>

lemma state_machine_jac_status_0:
  "state_machine_jac verbose (Inr database) poll_jac_jobs = 0
     \<longleftrightarrow> (\<exists>status. poll_jac_jobs database = Inr status \<and> truthy status)"
  by (cases "poll_jac_jobs database") (simp_all add: state_machine_jac_def)

text \<open>
  C8: the driver of the reconciliation poller exits with status 0 exactly when
  \<^verbatim>\<open>poll_jac_jobs\<close> returned a value that Python counts as true, and with status 1 in
  every other case (a false value, or an exception on the way).
\<close>

theorem state_machine_jac_exit_status:
  "state_machine_jac verbose get_database poll_jac_jobs =
     (if \<exists>database status.
           get_database = Inr database \<and> poll_jac_jobs database = Inr status \<and> truthy status
      then 0 else 1)"
proof (cases get_database)
  case (Inl exc)
  then show ?thesis by (simp add: state_machine_jac_def)
next
  case (Inr database)
  show ?thesis
  proof (cases "poll_jac_jobs database")
    case (Inl exc)
    with Inr show ?thesis by (simp add: state_machine_jac_def)
  next
    case poll: (Inr status)
    with Inr show ?thesis by (simp add: state_machine_jac_def)
  qed
qed

theorem state_machine_jac_exit_status_witness:
  "state_machine_jac False (Inr (PyObject ''db'')) (\<lambda>d. Inr (PyBool True)) = 0
   \<and> state_machine_jac True (Inr (PyObject ''db'')) (\<lambda>d. Inr (PyBool False)) = 1
   \<and> state_machine_jac False (Inr (PyObject ''db'')) (\<lambda>d. Inr PyNone) = 1
   \<and> state_machine_jac False (Inr (PyObject ''db'')) (\<lambda>d. Inl (JSAProcError ''poll'')) = 1"
  using state_machine_jac_exit_status [of False "Inr (PyObject ''db'')" "\<lambda>d. Inr (PyBool True)"]
    state_machine_jac_exit_status [of True "Inr (PyObject ''db'')" "\<lambda>d. Inr (PyBool False)"]
    state_machine_jac_exit_status [of False "Inr (PyObject ''db'')" "\<lambda>d. Inr PyNone"]
    state_machine_jac_exit_status [of False "Inr (PyObject ''db'')" "\<lambda>d. Inl (JSAProcError ''poll'')"]
  by simp

section \<open>The error summary route\<close>

text \<open>A call that passes the database alone is bound and reaches the body.\<close>

lemma prepare_error_summary_db_only:
  "prepare_error_summary find_errors_logs [database] [] =
     prepare_error_summary_body find_errors_logs [database]"
  by (simp add: prepare_error_summary_def call_function_def)

text \<open>
  C9: the handler of the error summary route passes the keyword arguments
  \<^verbatim>\<open>filtering\<close>, \<^verbatim>\<open>chosentask\<close> and \<^verbatim>\<open>extrafilter\<close> to \<^verbatim>\<open>prepare_error_summary\<close>, whose
  only parameter is \<^verbatim>\<open>db\<close>; whatever the request, the store and the database handle
  are, the call raises a \<open>TypeError\<close> and no summary is returned.
\<close>

theorem error_summary_always_raises_TypeError:
  "error_summary find_errors_logs database request_args =
     Inl (TypeError (''prepare_error_summary() got an unexpected keyword argument ''
                       @ [CHR 0x27] @ ''filtering'' @ [CHR 0x27]))"
  by (simp add: error_summary_def prepare_error_summary_def call_function_def)

section \<open>Running a job: the paths through \<^verbatim>\<open>run_a_job\<close>\<close>

lemmas prog_defs = and_then_def return_def raise_def try_except_def logger_def record_event_def
  db_change_state_def db_get_job_def db_set_output_files_def db_find_jobs_def
  call_jsawrapdr_run_def call_get_output_files_def os_path_exists_def

lemma change_state_Inl: "change_state i s m p tbl = Inl exc \<Longrightarrow> exc = NoRowsError ''job''"
  by (auto simp: change_state_def split: option.splits if_splits)

lemma change_state_Inr_iff:
  "change_state i s m p tbl = Inr tbl' \<longleftrightarrow>
     (\<exists>j. map_of tbl i = Some j \<and> (p = None \<or> p = Some (state j))
        \<and> tbl' = AList.update i (j\<lparr>state := s, log := log j @ [(s, m)]\<rparr>) tbl)"
  by (auto simp: change_state_def split: option.splits)

lemma world_update_swap: "w\<lparr>trace := t, db := tbl\<rparr> = w\<lparr>db := tbl, trace := t\<rparr>"
  by simp

lemma run_a_job_body_conflict:
  assumes "change_state job_id RUNNING (''Job is about to be run on host '' @ gethostname e)
             (if force then None else Some WAITING) (db w) = Inl (NoRowsError m)"
  shows "run_a_job_body e job_id force w =
           (Inr None,
            w\<lparr>trace := trace w @
               [Log LogInfo (''About to run job '' @ str_int job_id),
                Change_State job_id RUNNING (''Job is about to be run on host '' @ gethostname e)
                  (if force then None else Some WAITING),
                Log LogError (''Job '' @ str_int job_id @ '' cannot be run because it is not waiting'')]\<rparr>)"
  using assms by (cases force) (simp_all add: run_a_job_body_def prog_defs)

lemma run_a_job_body_claimed:
  assumes "change_state job_id RUNNING (''Job is about to be run on host '' @ gethostname e)
             (if force then None else Some WAITING) (db w) = Inr tbl"
  shows "run_a_job_body e job_id force w =
           run_claimed_job e job_id
             (w\<lparr>db := tbl, trace := trace w @
               [Log LogInfo (''About to run job '' @ str_int job_id),
                Change_State job_id RUNNING (''Job is about to be run on host '' @ gethostname e)
                  (if force then None else Some WAITING)]\<rparr>)"
  using assms by (cases force) (simp_all add: run_a_job_body_def prog_defs world_update_swap)

lemma run_claimed_job_cases [case_names missing_manifest no_row pipeline_failed enumeration_failed not_running processed]:
  obtains
    "input_file_list e job_id \<notin> set (paths w)"
    "run_claimed_job e job_id w =
       (Inl (JSAProcError (''Input file list '' @ input_file_list e job_id
               @ '' not found for job_id '' @ str_int job_id)), w)"
  | "map_of (db w) job_id = None"
    "run_claimed_job e job_id w =
       (Inl (NoRowsError ''job''), w\<lparr>trace := trace w @ [Get_Job job_id]\<rparr>)"
  | jb exc where
    "input_file_list e job_id \<in> set (paths w)"
    "map_of (db w) job_id = Some jb"
    "jsawrapdr_run e job_id (input_file_list e job_id) (mode jb) (parameters jb)
       ''cadc'' ''JAC'' True = Inl exc"
    "run_claimed_job e job_id w =
       (Inl exc,
        w\<lparr>db := other_processes (others e) (db w),
          trace := trace w @
            [Get_Job job_id,
             Log LogDebug (''Launching jsawrapdr: mode='' @ mode jb @ '', parameters='' @ parameters jb),
             Jsawrapdr_Run job_id (input_file_list e job_id) (mode jb) (parameters jb)
               ''cadc'' ''JAC'' True]\<rparr>)"
  | jb lg exc where
    "input_file_list e job_id \<in> set (paths w)"
    "map_of (db w) job_id = Some jb"
    "jsawrapdr_run e job_id (input_file_list e job_id) (mode jb) (parameters jb)
       ''cadc'' ''JAC'' True = Inr lg"
    "get_output_files e job_id = Inl exc"
    "run_claimed_job e job_id w =
       (Inl exc,
        w\<lparr>db := other_processes (others e) (db w),
          trace := trace w @
            [Get_Job job_id,
             Log LogDebug (''Launching jsawrapdr: mode='' @ mode jb @ '', parameters='' @ parameters jb),
             Jsawrapdr_Run job_id (input_file_list e job_id) (mode jb) (parameters jb)
               ''cadc'' ''JAC'' True,
             Log LogDebug ''Preparing list of output files'',
             Get_Output_Files job_id]\<rparr>)"
  | jb lg files where
    "input_file_list e job_id \<in> set (paths w)"
    "map_of (db w) job_id = Some jb"
    "jsawrapdr_run e job_id (input_file_list e job_id) (mode jb) (parameters jb)
       ''cadc'' ''JAC'' True = Inr lg"
    "get_output_files e job_id = Inr files"
    "change_state job_id PROCESSED ''Job has been sucessfully processed'' (Some RUNNING)
       (set_output_files job_id files (other_processes (others e) (db w))) = Inl (NoRowsError ''job'')"
    "run_claimed_job e job_id w =
       (Inl (NoRowsError ''job''),
        w\<lparr>db := set_output_files job_id files (other_processes (others e) (db w)),
          trace := trace w @
            [Get_Job job_id,
             Log LogDebug (''Launching jsawrapdr: mode='' @ mode jb @ '', parameters='' @ parameters jb),
             Jsawrapdr_Run job_id (input_file_list e job_id) (mode jb) (parameters jb)
               ''cadc'' ''JAC'' True,
             Log LogDebug ''Preparing list of output files'',
             Get_Output_Files job_id,
             Log LogDebug ''Storing list of output files'',
             Set_Output_Files job_id files,
             Change_State job_id PROCESSED ''Job has been sucessfully processed'' (Some RUNNING)]\<rparr>)"
  | jb lg files tbl where
    "input_file_list e job_id \<in> set (paths w)"
    "map_of (db w) job_id = Some jb"
    "jsawrapdr_run e job_id (input_file_list e job_id) (mode jb) (parameters jb)
       ''cadc'' ''JAC'' True = Inr lg"
    "get_output_files e job_id = Inr files"
    "change_state job_id PROCESSED ''Job has been sucessfully processed'' (Some RUNNING)
       (set_output_files job_id files (other_processes (others e) (db w))) = Inr tbl"
    "run_claimed_job e job_id w =
       (Inr (Some job_id),
        w\<lparr>db := tbl,
          trace := trace w @
            [Get_Job job_id,
             Log LogDebug (''Launching jsawrapdr: mode='' @ mode jb @ '', parameters='' @ parameters jb),
             Jsawrapdr_Run job_id (input_file_list e job_id) (mode jb) (parameters jb)
               ''cadc'' ''JAC'' True,
             Log LogDebug ''Preparing list of output files'',
             Get_Output_Files job_id,
             Log LogDebug ''Storing list of output files'',
             Set_Output_Files job_id files,
             Change_State job_id PROCESSED ''Job has been sucessfully processed'' (Some RUNNING),
             Log LogInfo (''Done running job '' @ str_int job_id)]\<rparr>)"
proof (cases "input_file_list e job_id \<in> set (paths w)")
  case False
  then show ?thesis
    using that(1) by (simp add: run_claimed_job_def prog_defs)
next
  case manifest: True
  show ?thesis
  proof (cases "map_of (db w) job_id")
    case None
    with manifest show ?thesis
      using that(2) by (simp add: run_claimed_job_def prog_defs get_job_def)
  next
    case (Some jb)
    show ?thesis
    proof (cases "jsawrapdr_run e job_id (input_file_list e job_id) (mode jb) (parameters jb)
       ''cadc'' ''JAC'' True")
      case (Inl exc)
      with manifest Some show ?thesis
        using that(3) by (simp add: run_claimed_job_def prog_defs get_job_def)
    next
      case pipeline: (Inr lg)
      show ?thesis
      proof (cases "get_output_files e job_id")
        case (Inl exc)
        with manifest Some pipeline show ?thesis
          using that(4) by (simp add: run_claimed_job_def prog_defs get_job_def)
      next
        case files: (Inr files)
        show ?thesis
        proof (cases "change_state job_id PROCESSED ''Job has been sucessfully processed''
                (Some RUNNING) (set_output_files job_id files (other_processes (others e) (db w)))")
          case (Inl exc)
          then have exc: "exc = NoRowsError ''job''" by (rule change_state_Inl)
          with manifest Some pipeline files Inl show ?thesis
            using that(5) by (simp add: run_claimed_job_def prog_defs get_job_def)
        next
          case (Inr tbl)
          with manifest Some pipeline files show ?thesis
            using that(6) by (simp add: run_claimed_job_def prog_defs get_job_def)
        qed
      qed
    qed
  qed
qed


lemma ErrorDecorator_result:
  "f job_id w = (Inr r, w') \<Longrightarrow> ErrorDecorator f job_id w = (Inr r, w')"
  by (simp add: ErrorDecorator_def)

lemma ErrorDecorator_raise:
  assumes "f job_id w = (Inl exc, w')" and "map_of (db w') job_id = Some j"
  shows "ErrorDecorator f job_id w =
           (Inr None,
            w'\<lparr>db := AList.update job_id
                    (j\<lparr>state := ERROR,
                       log := log j @ [(ERROR, error_category exc @ '': '' @ error_description exc)]\<rparr>)
                    (db w'),
               trace := trace w' @
                 [Change_State job_id ERROR
                    (error_category exc @ '': '' @ error_description exc) None]\<rparr>)"
  using assms by (simp add: ErrorDecorator_def prog_defs change_state_def)

lemma host_env_fields:
  "gethostname host_env = ''h''"
  "others host_env = []"
  "get_output_files host_env i = Inr [''a.fits'']"
  "jsawrapdr_run host_env i lis md ps cleanup loc persist = Inr ''log''"
  by (simp_all add: host_env_def)

lemma run_a_job_result:
  "run_a_job_body e job_id force w = (Inr r, w') \<Longrightarrow> run_a_job e job_id force w = (Inr r, w')"
  unfolding run_a_job_def by (rule ErrorDecorator_result)

lemma run_a_job_raise:
  assumes "run_a_job_body e job_id force w = (Inl exc, w')" and "map_of (db w') job_id = Some j"
  shows "run_a_job e job_id force w =
           (Inr None,
            w'\<lparr>db := AList.update job_id
                    (j\<lparr>state := ERROR,
                       log := log j @ [(ERROR, error_category exc @ '': '' @ error_description exc)]\<rparr>)
                    (db w'),
               trace := trace w' @
                 [Change_State job_id ERROR
                    (error_category exc @ '': '' @ error_description exc) None]\<rparr>)"
  unfolding run_a_job_def
  using assms by (rule ErrorDecorator_raise [of "\<lambda>jid. run_a_job_body e jid force"])

lemma claim_succeeds:
  assumes "map_of (db w) job_id = Some j" and "force \<or> state j = WAITING"
  shows "change_state job_id RUNNING m (if force then None else Some WAITING) (db w) =
           Inr (AList.update job_id (j\<lparr>state := RUNNING, log := log j @ [(RUNNING, m)]\<rparr>) (db w))"
  using assms by (auto simp: change_state_def)

lemma run_claimed_job_missing:
  assumes "input_file_list e job_id \<notin> set (paths w)"
  shows "run_claimed_job e job_id w =
       (Inl (JSAProcError (''Input file list '' @ input_file_list e job_id
               @ '' not found for job_id '' @ str_int job_id)), w)"
  using assms by (simp add: run_claimed_job_def prog_defs)

lemma str_int_7: "str_int 7 = ''7''"
  by (simp add: str_int_def digits10.simps digit_char_def)

lemma input_file_list_7: "input_file_list host_env 7 = ''/in/7/input_files_job.lis''"
  by (simp add: input_file_list_def host_env_def os_path_join_def str_int_7)

subsection \<open>Losing the race for a job\<close>

text \<open>
  C1, as amended: when the claim transition to \<open>RUNNING\<close> fails because the store
  reports no rows affected (\<open>NoRowsError\<close>), \<^verbatim>\<open>run_a_job\<close> logs the conflict with
  \<^verbatim>\<open>logger.error\<close>, that is at the error level, and returns \<^verbatim>\<open>None\<close>. The job table
  is left as it was, the only store call is the failed claim, and the body of the
  function returns normally, so the decorated function is the body: nothing reaches
  the failure containment and there is no transition to \<open>ERROR\<close>.
\<close>

theorem run_a_job_conflict_handled_locally:
  assumes "change_state job_id RUNNING (''Job is about to be run on host '' @ gethostname e)
             (if force then None else Some WAITING) (db w) = Inl (NoRowsError m)"
  shows "run_a_job_body e job_id force w =
           (Inr None,
            w\<lparr>trace := trace w @
               [Log LogInfo (''About to run job '' @ str_int job_id),
                Change_State job_id RUNNING (''Job is about to be run on host '' @ gethostname e)
                  (if force then None else Some WAITING),
                Log LogError (''Job '' @ str_int job_id @ '' cannot be run because it is not waiting'')]\<rparr>)
         \<and> run_a_job e job_id force w = run_a_job_body e job_id force w"
  using run_a_job_body_conflict [OF assms]
  by (simp add: run_a_job_def ErrorDecorator_def)

theorem run_a_job_conflict_handled_locally_witness:
  "change_state 7 RUNNING (''Job is about to be run on host '' @ gethostname host_env)
     (if False then None else Some WAITING)
     (db (waiting_world\<lparr>db := [(7, job7\<lparr>state := RUNNING\<rparr>)]\<rparr>)) = Inl (NoRowsError ''job'')
   \<and> run_a_job host_env 7 False (waiting_world\<lparr>db := [(7, job7\<lparr>state := RUNNING\<rparr>)]\<rparr>) =
       (Inr None,
        waiting_world\<lparr>db := [(7, job7\<lparr>state := RUNNING\<rparr>)],
          trace := [Log LogInfo ''About to run job 7'',
                    Change_State 7 RUNNING ''Job is about to be run on host h'' (Some WAITING),
                    Log LogError ''Job 7 cannot be run because it is not waiting'']\<rparr>)"
proof -
  have conflict:
    "change_state 7 RUNNING (''Job is about to be run on host '' @ gethostname host_env)
       (if False then None else Some WAITING)
       (db (waiting_world\<lparr>db := [(7, job7\<lparr>state := RUNNING\<rparr>)]\<rparr>)) = Inl (NoRowsError ''job'')"
    by (simp add: change_state_def waiting_world_def job7_def)
  from run_a_job_conflict_handled_locally [OF conflict] conflict
  show ?thesis
    by (simp add: str_int_7 host_env_def waiting_world_def)
qed

text \<open>
  The claim C1 says the conflict is logged at the informational or warning level. For
  job 7, already \<open>RUNNING\<close> when a second worker tries to claim it, the record of the
  conflict is the last of the three calls of the run, and its level is the error
  level; there is no such record at the warning or the informational level.
\<close>

theorem run_a_job_conflict_logged_at_error_level:
  "change_state 7 RUNNING (''Job is about to be run on host '' @ gethostname host_env)
     (Some WAITING) (db (waiting_world\<lparr>db := [(7, job7\<lparr>state := RUNNING\<rparr>)]\<rparr>))
     = Inl (NoRowsError ''job'')
   \<and> trace (snd (run_a_job host_env 7 False (waiting_world\<lparr>db := [(7, job7\<lparr>state := RUNNING\<rparr>)]\<rparr>))) =
       [Log LogInfo ''About to run job 7'',
        Change_State 7 RUNNING ''Job is about to be run on host h'' (Some WAITING),
        Log LogError ''Job 7 cannot be run because it is not waiting'']
   \<and> Log LogWarning ''Job 7 cannot be run because it is not waiting''
       \<notin> set (trace (snd (run_a_job host_env 7 False
                  (waiting_world\<lparr>db := [(7, job7\<lparr>state := RUNNING\<rparr>)]\<rparr>))))
   \<and> Log LogInfo ''Job 7 cannot be run because it is not waiting''
       \<notin> set (trace (snd (run_a_job host_env 7 False
                  (waiting_world\<lparr>db := [(7, job7\<lparr>state := RUNNING\<rparr>)]\<rparr>))))"
  by (simp add: run_a_job_def ErrorDecorator_def run_a_job_body_def prog_defs change_state_def
      waiting_world_def job7_def host_env_def str_int_7)

subsection \<open>A missing input file list\<close>

text \<open>
  C4: for a job that is claimed (it is in the table, and it waits or the run is forced)
  and whose input file list does not exist, the body of \<^verbatim>\<open>run_a_job\<close> raises a
  \<open>JSAProcError\<close> that names the missing list, having made no call but the log record
  and the claim: the pipeline is not invoked. The decorated function then returns
  \<^verbatim>\<open>None\<close> with the job in \<open>ERROR\<close>, the message in its log, and its \<open>output_files\<close>
  as they were; no call sets them.
\<close>

theorem run_a_job_missing_input_file_list:
  assumes "map_of (db w) job_id = Some j" and "force \<or> state j = WAITING"
    and "input_file_list e job_id \<notin> set (paths w)"
  shows "run_a_job_body e job_id force w =
           (Inl (JSAProcError (''Input file list '' @ input_file_list e job_id
                   @ '' not found for job_id '' @ str_int job_id)),
            w\<lparr>db := AList.update job_id
                   (j\<lparr>state := RUNNING,
                      log := log j @
                        [(RUNNING, ''Job is about to be run on host '' @ gethostname e)]\<rparr>) (db w),
              trace := trace w @
                [Log LogInfo (''About to run job '' @ str_int job_id),
                 Change_State job_id RUNNING (''Job is about to be run on host '' @ gethostname e)
                   (if force then None else Some WAITING)]\<rparr>)
         \<and> run_a_job e job_id force w =
           (Inr None,
            w\<lparr>db := AList.update job_id
                   (j\<lparr>state := ERROR,
                      log := log j @
                        [(RUNNING, ''Job is about to be run on host '' @ gethostname e),
                         (ERROR, ''JSAProcError: Input file list '' @ input_file_list e job_id
                            @ '' not found for job_id '' @ str_int job_id)]\<rparr>) (db w),
              trace := trace w @
                [Log LogInfo (''About to run job '' @ str_int job_id),
                 Change_State job_id RUNNING (''Job is about to be run on host '' @ gethostname e)
                   (if force then None else Some WAITING),
                 Change_State job_id ERROR
                   (''JSAProcError: Input file list '' @ input_file_list e job_id
                      @ '' not found for job_id '' @ str_int job_id) None]\<rparr>)"
proof -
  let ?m = "''Job is about to be run on host '' @ gethostname e"
  let ?j1 = "j\<lparr>state := RUNNING, log := log j @ [(RUNNING, ?m)]\<rparr>"
  let ?w1 = "w\<lparr>db := AList.update job_id ?j1 (db w),
               trace := trace w @
                 [Log LogInfo (''About to run job '' @ str_int job_id),
                  Change_State job_id RUNNING ?m (if force then None else Some WAITING)]\<rparr>"
  let ?exc = "JSAProcError (''Input file list '' @ input_file_list e job_id
                   @ '' not found for job_id '' @ str_int job_id)"
  have "run_a_job_body e job_id force w = run_claimed_job e job_id ?w1"
    by (rule run_a_job_body_claimed) (rule claim_succeeds [OF assms(1,2)])
  moreover have "run_claimed_job e job_id ?w1 = (Inl ?exc, ?w1)"
    by (rule run_claimed_job_missing) (simp add: assms(3))
  ultimately have body: "run_a_job_body e job_id force w = (Inl ?exc, ?w1)"
    by simp
  have row: "map_of (db ?w1) job_id = Some ?j1"
    by (simp add: update_conv')
  have "run_a_job e job_id force w =
          (Inr None,
           ?w1\<lparr>db := AList.update job_id
                    (?j1\<lparr>state := ERROR,
                       log := log ?j1 @ [(ERROR, error_category ?exc @ '': '' @ error_description ?exc)]\<rparr>)
                    (db ?w1),
               trace := trace ?w1 @
                 [Change_State job_id ERROR
                    (error_category ?exc @ '': '' @ error_description ?exc) None]\<rparr>)"
    by (rule run_a_job_raise [OF body row])
  then have "run_a_job e job_id force w =
           (Inr None,
            w\<lparr>db := AList.update job_id
                   (j\<lparr>state := ERROR,
                      log := log j @
                        [(RUNNING, ''Job is about to be run on host '' @ gethostname e),
                         (ERROR, ''JSAProcError: Input file list '' @ input_file_list e job_id
                            @ '' not found for job_id '' @ str_int job_id)]\<rparr>) (db w),
              trace := trace w @
                [Log LogInfo (''About to run job '' @ str_int job_id),
                 Change_State job_id RUNNING (''Job is about to be run on host '' @ gethostname e)
                   (if force then None else Some WAITING),
                 Change_State job_id ERROR
                   (''JSAProcError: Input file list '' @ input_file_list e job_id
                      @ '' not found for job_id '' @ str_int job_id) None]\<rparr>)"
    by simp
  with body show ?thesis by simp
qed

theorem run_a_job_missing_input_file_list_witness:
  "map_of (db (waiting_world\<lparr>paths := []\<rparr>)) 7 = Some job7
   \<and> state job7 = WAITING
   \<and> input_file_list host_env 7 \<notin> set (paths (waiting_world\<lparr>paths := []\<rparr>))
   \<and> run_a_job host_env 7 False (waiting_world\<lparr>paths := []\<rparr>) =
       (Inr None,
        \<lparr>db = [(7, job7\<lparr>state := ERROR,
                       log := [(RUNNING, ''Job is about to be run on host h''),
                               (ERROR, ''JSAProcError: Input file list /in/7/input_files_job.lis not found for job_id 7'')]\<rparr>)],
         paths = [],
         trace = [Log LogInfo ''About to run job 7'',
                  Change_State 7 RUNNING ''Job is about to be run on host h'' (Some WAITING),
                  Change_State 7 ERROR
                    ''JSAProcError: Input file list /in/7/input_files_job.lis not found for job_id 7''
                    None]\<rparr>)"
proof -
  have row: "map_of (db (waiting_world\<lparr>paths := []\<rparr>)) 7 = Some job7"
    by (simp add: waiting_world_def)
  have waiting: "False \<or> state job7 = WAITING"
    by (simp add: job7_def)
  have missing: "input_file_list host_env 7 \<notin> set (paths (waiting_world\<lparr>paths := []\<rparr>))"
    by simp
  from run_a_job_missing_input_file_list [OF row waiting missing] row waiting
  show ?thesis
    by (simp add: input_file_list_7 str_int_7 waiting_world_def host_env_fields job7_def)
qed

subsection \<open>A run that nothing disturbs\<close>






subsection \<open>No work\<close>

text \<open>
  C7: when \<^verbatim>\<open>run_job\<close> is called without a job id and the selection of \<open>WAITING\<close>
  jobs at JAC is empty, it logs a warning and returns normally: no exception, no store
  call but the selection, and the job table unchanged. (A job id of \<open>0\<close> counts as no
  job id.)
\<close>

theorem run_job_no_work:
  assumes "find_jobs WAITING ''JAC'' True 1 True (db w) = []"
  shows "run_job e None force w =
           (Inr (),
            w\<lparr>trace := trace w @
               [Log LogDebug ''Looking for a job to run'',
                Find_Jobs WAITING ''JAC'' True 1 True,
                Log LogWarning ''Did not find a job to run!'']\<rparr>)
         \<and> run_job e (Some 0) force w = run_job e None force w"
  using assms by (simp add: run_job_def prog_defs)

theorem run_job_no_work_witness:
  "find_jobs WAITING ''JAC'' True 1 True (db (waiting_world\<lparr>db := [(7, job7\<lparr>state := PROCESSED\<rparr>)]\<rparr>)) = []
   \<and> run_job host_env None True (waiting_world\<lparr>db := [(7, job7\<lparr>state := PROCESSED\<rparr>)]\<rparr>) =
       (Inr (),
        waiting_world\<lparr>db := [(7, job7\<lparr>state := PROCESSED\<rparr>)],
           trace := [Log LogDebug ''Looking for a job to run'',
                     Find_Jobs WAITING ''JAC'' True 1 True,
                     Log LogWarning ''Did not find a job to run!'']\<rparr>)"
proof -
  have none:
    "find_jobs WAITING ''JAC'' True 1 True (db (waiting_world\<lparr>db := [(7, job7\<lparr>state := PROCESSED\<rparr>)]\<rparr>)) = []"
    by (simp add: find_jobs_def)
  from run_job_no_work [OF none] none show ?thesis
    by (simp add: waiting_world_def)
qed

subsection \<open>Every run, by the way it ends\<close>

text \<open>
  A run of the decorated \<^verbatim>\<open>run_a_job\<close> ends in one of six ways: the claim meets a
  conflict; the input file list is missing; the pipeline fails; the enumeration of the
  artifacts fails; the transition to \<open>PROCESSED\<close> meets a conflict; or the job is
  processed. Each way fixes the calls the run makes, in their order.
\<close>

lemma run_a_job_trace_raise:
  assumes "run_a_job_body e job_id force w = (Inl exc, w')"
  shows "trace (snd (run_a_job e job_id force w)) =
           trace w' @ [Change_State job_id ERROR
                         (error_category exc @ '': '' @ error_description exc) None]"
  using assms by (simp add: run_a_job_def ErrorDecorator_def prog_defs Let_def split: sum.splits)

lemma claim_fails:
  assumes "change_state job_id RUNNING m (if force then None else Some WAITING) (db w) = Inl exc"
  shows "\<not> (\<exists>j. map_of (db w) job_id = Some j \<and> (force \<or> state j = WAITING))"
  using assms by (auto simp: change_state_def split: option.splits if_splits)

lemma run_a_job_cases
  [case_names conflict missing_manifest pipeline_failed enumeration_failed not_running processed]:
  obtains
    "\<not> (\<exists>j. map_of (db w) job_id = Some j \<and> (force \<or> state j = WAITING))"
    "trace (snd (run_a_job e job_id force w)) = trace w @
       [Log LogInfo (''About to run job '' @ str_int job_id),
        Change_State job_id RUNNING (''Job is about to be run on host '' @ gethostname e)
          (if force then None else Some WAITING),
        Log LogError (''Job '' @ str_int job_id @ '' cannot be run because it is not waiting'')]"
  | j where
    "map_of (db w) job_id = Some j" "force \<or> state j = WAITING"
    "input_file_list e job_id \<notin> set (paths w)"
    "trace (snd (run_a_job e job_id force w)) = trace w @
       [Log LogInfo (''About to run job '' @ str_int job_id),
        Change_State job_id RUNNING (''Job is about to be run on host '' @ gethostname e)
          (if force then None else Some WAITING),
        Change_State job_id ERROR
          (''JSAProcError: Input file list '' @ input_file_list e job_id
             @ '' not found for job_id '' @ str_int job_id) None]"
  | j exc where
    "map_of (db w) job_id = Some j" "force \<or> state j = WAITING"
    "input_file_list e job_id \<in> set (paths w)"
    "jsawrapdr_run e job_id (input_file_list e job_id) (mode j) (parameters j)
       ''cadc'' ''JAC'' True = Inl exc"
    "trace (snd (run_a_job e job_id force w)) = trace w @
       [Log LogInfo (''About to run job '' @ str_int job_id),
        Change_State job_id RUNNING (''Job is about to be run on host '' @ gethostname e)
          (if force then None else Some WAITING),
        Get_Job job_id,
        Log LogDebug (''Launching jsawrapdr: mode='' @ mode j @ '', parameters='' @ parameters j),
        Jsawrapdr_Run job_id (input_file_list e job_id) (mode j) (parameters j)
          ''cadc'' ''JAC'' True,
        Change_State job_id ERROR (error_category exc @ '': '' @ error_description exc) None]"
  | j lg exc where
    "map_of (db w) job_id = Some j" "force \<or> state j = WAITING"
    "input_file_list e job_id \<in> set (paths w)"
    "jsawrapdr_run e job_id (input_file_list e job_id) (mode j) (parameters j)
       ''cadc'' ''JAC'' True = Inr lg"
    "get_output_files e job_id = Inl exc"
    "trace (snd (run_a_job e job_id force w)) = trace w @
       [Log LogInfo (''About to run job '' @ str_int job_id),
        Change_State job_id RUNNING (''Job is about to be run on host '' @ gethostname e)
          (if force then None else Some WAITING),
        Get_Job job_id,
        Log LogDebug (''Launching jsawrapdr: mode='' @ mode j @ '', parameters='' @ parameters j),
        Jsawrapdr_Run job_id (input_file_list e job_id) (mode j) (parameters j)
          ''cadc'' ''JAC'' True,
        Log LogDebug ''Preparing list of output files'',
        Get_Output_Files job_id,
        Change_State job_id ERROR (error_category exc @ '': '' @ error_description exc) None]"
  | j lg files where
    "map_of (db w) job_id = Some j" "force \<or> state j = WAITING"
    "input_file_list e job_id \<in> set (paths w)"
    "jsawrapdr_run e job_id (input_file_list e job_id) (mode j) (parameters j)
       ''cadc'' ''JAC'' True = Inr lg"
    "get_output_files e job_id = Inr files"
    "trace (snd (run_a_job e job_id force w)) = trace w @
       [Log LogInfo (''About to run job '' @ str_int job_id),
        Change_State job_id RUNNING (''Job is about to be run on host '' @ gethostname e)
          (if force then None else Some WAITING),
        Get_Job job_id,
        Log LogDebug (''Launching jsawrapdr: mode='' @ mode j @ '', parameters='' @ parameters j),
        Jsawrapdr_Run job_id (input_file_list e job_id) (mode j) (parameters j)
          ''cadc'' ''JAC'' True,
        Log LogDebug ''Preparing list of output files'',
        Get_Output_Files job_id,
        Log LogDebug ''Storing list of output files'',
        Set_Output_Files job_id files,
        Change_State job_id PROCESSED ''Job has been sucessfully processed'' (Some RUNNING),
        Change_State job_id ERROR ''NoRowsError: job'' None]"
  | j lg files where
    "map_of (db w) job_id = Some j" "force \<or> state j = WAITING"
    "input_file_list e job_id \<in> set (paths w)"
    "jsawrapdr_run e job_id (input_file_list e job_id) (mode j) (parameters j)
       ''cadc'' ''JAC'' True = Inr lg"
    "get_output_files e job_id = Inr files"
    "trace (snd (run_a_job e job_id force w)) = trace w @
       [Log LogInfo (''About to run job '' @ str_int job_id),
        Change_State job_id RUNNING (''Job is about to be run on host '' @ gethostname e)
          (if force then None else Some WAITING),
        Get_Job job_id,
        Log LogDebug (''Launching jsawrapdr: mode='' @ mode j @ '', parameters='' @ parameters j),
        Jsawrapdr_Run job_id (input_file_list e job_id) (mode j) (parameters j)
          ''cadc'' ''JAC'' True,
        Log LogDebug ''Preparing list of output files'',
        Get_Output_Files job_id,
        Log LogDebug ''Storing list of output files'',
        Set_Output_Files job_id files,
        Change_State job_id PROCESSED ''Job has been sucessfully processed'' (Some RUNNING),
        Log LogInfo (''Done running job '' @ str_int job_id)]"
proof (cases "change_state job_id RUNNING (''Job is about to be run on host '' @ gethostname e)
               (if force then None else Some WAITING) (db w)")
  case (Inl exc)
  then have exc: "exc = NoRowsError ''job''" by (rule change_state_Inl)
  from Inl have "\<not> (\<exists>j. map_of (db w) job_id = Some j \<and> (force \<or> state j = WAITING))"
    by (rule claim_fails)
  moreover have "trace (snd (run_a_job e job_id force w)) = trace w @
       [Log LogInfo (''About to run job '' @ str_int job_id),
        Change_State job_id RUNNING (''Job is about to be run on host '' @ gethostname e)
          (if force then None else Some WAITING),
        Log LogError (''Job '' @ str_int job_id @ '' cannot be run because it is not waiting'')]"
    using run_a_job_result [OF run_a_job_body_conflict [OF Inl [unfolded exc]]] by simp
  ultimately show ?thesis by (rule that(1))
next
  case (Inr tbl)
  let ?m = "''Job is about to be run on host '' @ gethostname e"
  let ?w1 = "w\<lparr>db := tbl, trace := trace w @
                 [Log LogInfo (''About to run job '' @ str_int job_id),
                  Change_State job_id RUNNING ?m (if force then None else Some WAITING)]\<rparr>"
  from Inr obtain j where row: "map_of (db w) job_id = Some j"
    and ok: "force \<or> state j = WAITING"
    and tbl: "tbl = AList.update job_id (j\<lparr>state := RUNNING, log := log j @ [(RUNNING, ?m)]\<rparr>) (db w)"
    by (auto simp: change_state_Inr_iff split: if_splits)
  have body: "run_a_job_body e job_id force w = run_claimed_job e job_id ?w1"
    using Inr by (rule run_a_job_body_claimed)
  have row1: "map_of (db ?w1) job_id = Some (j\<lparr>state := RUNNING, log := log j @ [(RUNNING, ?m)]\<rparr>)"
    by (simp add: tbl update_conv')
  show ?thesis
  proof (cases e job_id ?w1 rule: run_claimed_job_cases)
    case missing_manifest
    from missing_manifest(1) have "input_file_list e job_id \<notin> set (paths w)" by simp
    moreover from run_a_job_trace_raise [OF body [unfolded missing_manifest(2)]]
    have "trace (snd (run_a_job e job_id force w)) = trace w @
       [Log LogInfo (''About to run job '' @ str_int job_id),
        Change_State job_id RUNNING (''Job is about to be run on host '' @ gethostname e)
          (if force then None else Some WAITING),
        Change_State job_id ERROR
          (''JSAProcError: Input file list '' @ input_file_list e job_id
             @ '' not found for job_id '' @ str_int job_id) None]"
      by simp
    ultimately show ?thesis by (rule that(2) [OF row ok])
  next
    case no_row
    with row1 show ?thesis by simp
  next
    case (pipeline_failed jb exc)
    from pipeline_failed(2) row1 have jb: "jb = j\<lparr>state := RUNNING, log := log j @ [(RUNNING, ?m)]\<rparr>"
      by simp
    from pipeline_failed(1) have "input_file_list e job_id \<in> set (paths w)" by simp
    moreover from pipeline_failed(3) have "jsawrapdr_run e job_id (input_file_list e job_id) (mode j) (parameters j)
       ''cadc'' ''JAC'' True = Inl exc" by (simp add: jb)
    moreover from run_a_job_trace_raise [OF body [unfolded pipeline_failed(4)]]
    have "trace (snd (run_a_job e job_id force w)) = trace w @
       [Log LogInfo (''About to run job '' @ str_int job_id),
        Change_State job_id RUNNING (''Job is about to be run on host '' @ gethostname e)
          (if force then None else Some WAITING),
        Get_Job job_id,
        Log LogDebug (''Launching jsawrapdr: mode='' @ mode j @ '', parameters='' @ parameters j),
        Jsawrapdr_Run job_id (input_file_list e job_id) (mode j) (parameters j)
          ''cadc'' ''JAC'' True,
        Change_State job_id ERROR (error_category exc @ '': '' @ error_description exc) None]"
      by (simp add: jb)
    ultimately show ?thesis by (rule that(3) [OF row ok])
  next
    case (enumeration_failed jb lg exc)
    from enumeration_failed(2) row1 have jb: "jb = j\<lparr>state := RUNNING, log := log j @ [(RUNNING, ?m)]\<rparr>"
      by simp
    from enumeration_failed(1) have "input_file_list e job_id \<in> set (paths w)" by simp
    moreover from enumeration_failed(3) have "jsawrapdr_run e job_id (input_file_list e job_id) (mode j) (parameters j)
       ''cadc'' ''JAC'' True = Inr lg" by (simp add: jb)
    moreover note enumeration_failed(4)
    moreover from run_a_job_trace_raise [OF body [unfolded enumeration_failed(5)]]
    have "trace (snd (run_a_job e job_id force w)) = trace w @
       [Log LogInfo (''About to run job '' @ str_int job_id),
        Change_State job_id RUNNING (''Job is about to be run on host '' @ gethostname e)
          (if force then None else Some WAITING),
        Get_Job job_id,
        Log LogDebug (''Launching jsawrapdr: mode='' @ mode j @ '', parameters='' @ parameters j),
        Jsawrapdr_Run job_id (input_file_list e job_id) (mode j) (parameters j)
          ''cadc'' ''JAC'' True,
        Log LogDebug ''Preparing list of output files'',
        Get_Output_Files job_id,
        Change_State job_id ERROR (error_category exc @ '': '' @ error_description exc) None]"
      by (simp add: jb)
    ultimately show ?thesis by (rule that(4) [OF row ok])
  next
    case (not_running jb lg files)
    from not_running(2) row1 have jb: "jb = j\<lparr>state := RUNNING, log := log j @ [(RUNNING, ?m)]\<rparr>"
      by simp
    from not_running(1) have "input_file_list e job_id \<in> set (paths w)" by simp
    moreover from not_running(3) have "jsawrapdr_run e job_id (input_file_list e job_id) (mode j) (parameters j)
       ''cadc'' ''JAC'' True = Inr lg" by (simp add: jb)
    moreover note not_running(4)
    moreover from run_a_job_trace_raise [OF body [unfolded not_running(6)]]
    have "trace (snd (run_a_job e job_id force w)) = trace w @
       [Log LogInfo (''About to run job '' @ str_int job_id),
        Change_State job_id RUNNING (''Job is about to be run on host '' @ gethostname e)
          (if force then None else Some WAITING),
        Get_Job job_id,
        Log LogDebug (''Launching jsawrapdr: mode='' @ mode j @ '', parameters='' @ parameters j),
        Jsawrapdr_Run job_id (input_file_list e job_id) (mode j) (parameters j)
          ''cadc'' ''JAC'' True,
        Log LogDebug ''Preparing list of output files'',
        Get_Output_Files job_id,
        Log LogDebug ''Storing list of output files'',
        Set_Output_Files job_id files,
        Change_State job_id PROCESSED ''Job has been sucessfully processed'' (Some RUNNING),
        Change_State job_id ERROR ''NoRowsError: job'' None]"
      by (simp add: jb)
    ultimately show ?thesis by (rule that(5) [OF row ok])
  next
    case (processed jb lg files tbl')
    from processed(2) row1 have jb: "jb = j\<lparr>state := RUNNING, log := log j @ [(RUNNING, ?m)]\<rparr>"
      by simp
    from processed(1) have "input_file_list e job_id \<in> set (paths w)" by simp
    moreover from processed(3) have "jsawrapdr_run e job_id (input_file_list e job_id) (mode j) (parameters j)
       ''cadc'' ''JAC'' True = Inr lg" by (simp add: jb)
    moreover note processed(4)
    moreover from run_a_job_result [OF body [unfolded processed(6)]]
    have "trace (snd (run_a_job e job_id force w)) = trace w @
       [Log LogInfo (''About to run job '' @ str_int job_id),
        Change_State job_id RUNNING (''Job is about to be run on host '' @ gethostname e)
          (if force then None else Some WAITING),
        Get_Job job_id,
        Log LogDebug (''Launching jsawrapdr: mode='' @ mode j @ '', parameters='' @ parameters j),
        Jsawrapdr_Run job_id (input_file_list e job_id) (mode j) (parameters j)
          ''cadc'' ''JAC'' True,
        Log LogDebug ''Preparing list of output files'',
        Get_Output_Files job_id,
        Log LogDebug ''Storing list of output files'',
        Set_Output_Files job_id files,
        Change_State job_id PROCESSED ''Job has been sucessfully processed'' (Some RUNNING),
        Log LogInfo (''Done running job '' @ str_int job_id)]"
      by (simp add: jb)
    ultimately show ?thesis by (rule that(6) [OF row ok])
  qed
qed

subsection \<open>Failure containment\<close>

text \<open>
  No call of the store client removes a row, whoever makes it; so a job that was
  claimed is still in the table whenever the body of \<^verbatim>\<open>run_a_job\<close> raises, and the
  unconditional transition to \<open>ERROR\<close> applies.
\<close>

lemma dom_change_state:
  "change_state i s m p tbl = Inr tbl' \<Longrightarrow> dom (map_of tbl') = dom (map_of tbl)"
  by (auto simp: change_state_Inr_iff update_conv' split: if_splits)

lemma dom_set_output_files: "dom (map_of (set_output_files i fs tbl)) = dom (map_of tbl)"
  by (auto simp: set_output_files_def update_conv' split: option.splits if_splits)

lemma dom_other_process: "dom (map_of (other_process tbl c)) = dom (map_of tbl)"
  by (cases c) (auto simp: dom_set_output_files dom_change_state split: sum.splits)

lemma dom_other_processes: "dom (map_of (other_processes cs tbl)) = dom (map_of tbl)"
  unfolding other_processes_def
  by (induction cs arbitrary: tbl) (simp_all add: dom_other_process)

lemma dom_run_claimed_job:
  "dom (map_of (db (snd (run_claimed_job e job_id w)))) = dom (map_of (db w))"
proof (cases e job_id w rule: run_claimed_job_cases)
  case (processed jb lg files tbl)
  from processed(5) have "dom (map_of tbl) =
      dom (map_of (set_output_files job_id files (other_processes (others e) (db w))))"
    by (rule dom_change_state)
  with processed(6) show ?thesis
    by (simp add: dom_set_output_files dom_other_processes)
qed (simp_all add: dom_set_output_files dom_other_processes)

lemma run_a_job_body_raise_row:
  assumes "run_a_job_body e job_id force w = (Inl exc, w')"
  shows "\<exists>j. map_of (db w') job_id = Some j"
proof (cases "change_state job_id RUNNING (''Job is about to be run on host '' @ gethostname e)
               (if force then None else Some WAITING) (db w)")
  case (Inl exc')
  then have "exc' = NoRowsError ''job''" by (rule change_state_Inl)
  with Inl assms show ?thesis
    by (simp add: run_a_job_body_conflict)
next
  case (Inr tbl)
  let ?w1 = "w\<lparr>db := tbl, trace := trace w @
                 [Log LogInfo (''About to run job '' @ str_int job_id),
                  Change_State job_id RUNNING (''Job is about to be run on host '' @ gethostname e)
                    (if force then None else Some WAITING)]\<rparr>"
  from Inr have "job_id \<in> dom (map_of tbl)"
    by (auto simp: change_state_Inr_iff update_conv')
  then have "job_id \<in> dom (map_of (db (snd (run_claimed_job e job_id ?w1))))"
    by (simp add: dom_run_claimed_job)
  moreover from assms have "snd (run_claimed_job e job_id ?w1) = w'"
    by (simp add: run_a_job_body_claimed [OF Inr])
  ultimately show ?thesis by auto
qed

lemma run_a_job_returns: "\<exists>r w'. run_a_job e job_id force w = (Inr r, w')"
proof (cases "run_a_job_body e job_id force w")
  case (Pair res w')
  show ?thesis
  proof (cases res)
    case (Inl exc)
    with Pair have body: "run_a_job_body e job_id force w = (Inl exc, w')" by simp
    from run_a_job_body_raise_row [OF body] obtain j where "map_of (db w') job_id = Some j" ..
    from run_a_job_raise [OF body this] show ?thesis by blast
  next
    case (Inr r)
    with Pair have "run_a_job e job_id force w = (Inr r, w')"
      by (intro run_a_job_result) simp
    then show ?thesis by blast
  qed
qed

lemma run_job_selects:
  "run_job e None force w =
     (case find_jobs WAITING ''JAC'' True 1 True (db w) of
        [] \<Rightarrow>
          (Inr (),
           w\<lparr>trace := trace w @
              [Log LogDebug ''Looking for a job to run'',
               Find_Jobs WAITING ''JAC'' True 1 True,
               Log LogWarning ''Did not find a job to run!'']\<rparr>)
      | s # rest \<Rightarrow>
          and_then (run_a_job e (fst s) False) (\<lambda>_. return ())
            (w\<lparr>trace := trace w @
               [Log LogDebug ''Looking for a job to run'',
                Find_Jobs WAITING ''JAC'' True 1 True]\<rparr>))"
  by (simp add: run_job_def prog_defs split: list.splits)

lemma run_job_zero: "run_job e (Some 0) force w = run_job e None force w"
  by (simp add: run_job_def)

lemma run_job_explicit:
  "job_id \<noteq> 0 \<Longrightarrow>
     run_job e (Some job_id) force w = and_then (run_a_job e job_id force) (\<lambda>_. return ()) w"
  by (simp add: run_job_def and_then_def return_def)

lemma run_job_returns: "fst (run_job e selected force w) = Inr ()"
proof -
  have call: "fst (and_then (run_a_job e jid frc) (\<lambda>_. return ()) w0) = Inr ()" for jid frc w0
    using run_a_job_returns [of e jid frc w0] by (auto simp: and_then_def return_def)
  have none: "fst (run_job e None force w) = Inr ()"
    by (simp add: run_job_selects call split: list.splits)
  show ?thesis
  proof (cases selected)
    case None
    with none show ?thesis by simp
  next
    case (Some jid)
    with none call [of jid force w] show ?thesis
      by (cases "jid = 0") (simp_all add: run_job_zero run_job_explicit)
  qed
qed

text \<open>
  C3: whenever the body of \<^verbatim>\<open>run_a_job\<close> raises (which it can only do after the claim
  succeeded: a missing input file list, a failure of the pipeline or of the
  enumeration, a conflict on the final transition), the job is in the table, the
  failure containment moves it to \<open>ERROR\<close> with the category and description of the
  exception as the log entry, and the decorated function returns \<^verbatim>\<open>None\<close> instead of
  raising. The batch driver \<^verbatim>\<open>run_job\<close> therefore returns normally on every input.
\<close>

theorem run_a_job_failure_contained:
  assumes "run_a_job_body e job_id force w = (Inl exc, w')"
  shows "(\<exists>j. map_of (db w') job_id = Some j
            \<and> run_a_job e job_id force w =
                (Inr None,
                 w'\<lparr>db := AList.update job_id
                         (j\<lparr>state := ERROR,
                            log := log j @
                              [(ERROR, error_category exc @ '': '' @ error_description exc)]\<rparr>)
                         (db w'),
                    trace := trace w' @
                      [Change_State job_id ERROR
                         (error_category exc @ '': '' @ error_description exc) None]\<rparr>))
         \<and> fst (run_job e selected frc w0) = Inr ()"
proof -
  from run_a_job_body_raise_row [OF assms] obtain j where row: "map_of (db w') job_id = Some j" ..
  from run_a_job_raise [OF assms row] row run_job_returns show ?thesis by blast
qed

theorem run_a_job_failure_contained_witness:
  "run_a_job_body (host_env\<lparr>jsawrapdr_run := \<lambda>i lis md ps cleanup loc persist.
                                  Inl (JSAProcError ''jsawrapdr exited with status 1'')\<rparr>)
     7 False waiting_world =
     (Inl (JSAProcError ''jsawrapdr exited with status 1''),
      \<lparr>db = [(7, job7\<lparr>state := RUNNING,
                     log := [(RUNNING, ''Job is about to be run on host h'')]\<rparr>)],
       paths = [''/in/7/input_files_job.lis''],
       trace = [Log LogInfo ''About to run job 7'',
                Change_State 7 RUNNING ''Job is about to be run on host h'' (Some WAITING),
                Get_Job 7,
                Log LogDebug ''Launching jsawrapdr: mode=obs, parameters='',
                Jsawrapdr_Run 7 ''/in/7/input_files_job.lis'' ''obs'' [] ''cadc'' ''JAC'' True]\<rparr>)
   \<and> run_a_job (host_env\<lparr>jsawrapdr_run := \<lambda>i lis md ps cleanup loc persist.
                                  Inl (JSAProcError ''jsawrapdr exited with status 1'')\<rparr>)
     7 False waiting_world =
     (Inr None,
      \<lparr>db = [(7, job7\<lparr>state := ERROR,
                     log := [(RUNNING, ''Job is about to be run on host h''),
                             (ERROR, ''JSAProcError: jsawrapdr exited with status 1'')]\<rparr>)],
       paths = [''/in/7/input_files_job.lis''],
       trace = [Log LogInfo ''About to run job 7'',
                Change_State 7 RUNNING ''Job is about to be run on host h'' (Some WAITING),
                Get_Job 7,
                Log LogDebug ''Launching jsawrapdr: mode=obs, parameters='',
                Jsawrapdr_Run 7 ''/in/7/input_files_job.lis'' ''obs'' [] ''cadc'' ''JAC'' True,
                Change_State 7 ERROR ''JSAProcError: jsawrapdr exited with status 1'' None]\<rparr>)
   \<and> fst (run_job (host_env\<lparr>jsawrapdr_run := \<lambda>i lis md ps cleanup loc persist.
                                  Inl (JSAProcError ''jsawrapdr exited with status 1'')\<rparr>)
            (Some 7) False waiting_world) = Inr ()"
proof -
  let ?e = "host_env\<lparr>jsawrapdr_run := \<lambda>i lis md ps cleanup loc persist.
                                  Inl (JSAProcError ''jsawrapdr exited with status 1'')\<rparr>"
  have body: "run_a_job_body ?e 7 False waiting_world =
     (Inl (JSAProcError ''jsawrapdr exited with status 1''),
      \<lparr>db = [(7, job7\<lparr>state := RUNNING,
                     log := [(RUNNING, ''Job is about to be run on host h'')]\<rparr>)],
       paths = [''/in/7/input_files_job.lis''],
       trace = [Log LogInfo ''About to run job 7'',
                Change_State 7 RUNNING ''Job is about to be run on host h'' (Some WAITING),
                Get_Job 7,
                Log LogDebug ''Launching jsawrapdr: mode=obs, parameters='',
                Jsawrapdr_Run 7 ''/in/7/input_files_job.lis'' ''obs'' [] ''cadc'' ''JAC'' True]\<rparr>)"
    by (simp add: run_a_job_body_def run_claimed_job_def prog_defs change_state_def get_job_def
        input_file_list_def os_path_join_def other_processes_def
        host_env_def waiting_world_def job7_def str_int_7)
  from run_a_job_failure_contained [OF body, of "Some 7" False waiting_world] body
  show ?thesis
    by (simp add: job7_def)
qed

subsection \<open>When the output files are set\<close>

lemma new_events_append: "trace w' = trace w @ evs \<Longrightarrow> new_events w w' = evs"
  by (simp add: new_events_def)

lemmas run_defs = run_a_job_def ErrorDecorator_def run_a_job_body_def run_claimed_job_def prog_defs
  change_state_def get_job_def set_output_files_def input_file_list_def os_path_join_def
  other_processes_def

text \<open>
  C2, as amended: in every execution of \<^verbatim>\<open>run_a_job\<close> the job's \<open>output_files\<close> are
  set only after the pipeline and the enumeration of its artifacts have both
  succeeded, with the enumerated names, and the call that sets them is immediately
  followed by the request for the transition from \<open>RUNNING\<close> to \<open>PROCESSED\<close>; no
  earlier call of the run sets them. So an execution that ends in \<open>ERROR\<close> because the
  input file list is missing, the pipeline fails or the enumeration fails never sets
  them. The first part says exactly when the run sets them, the second what it sets
  and where in the sequence of its calls.
\<close>

theorem run_a_job_output_files_after_enumeration:
  "((\<exists>i fs. Set_Output_Files i fs \<in> set (new_events w (snd (run_a_job e job_id force w))))
      \<longleftrightarrow> (\<exists>j lg fs. map_of (db w) job_id = Some j \<and> (force \<or> state j = WAITING)
             \<and> input_file_list e job_id \<in> set (paths w)
             \<and> jsawrapdr_run e job_id (input_file_list e job_id) (mode j) (parameters j)
                  ''cadc'' ''JAC'' True = Inr lg
             \<and> get_output_files e job_id = Inr fs))
   \<and> (Set_Output_Files i fs \<in> set (new_events w (snd (run_a_job e job_id force w)))
        \<longrightarrow> i = job_id \<and> get_output_files e job_id = Inr fs
          \<and> (\<exists>pre post. new_events w (snd (run_a_job e job_id force w)) =
                 pre @ [Set_Output_Files job_id fs,
                        Change_State job_id PROCESSED ''Job has been sucessfully processed''
                          (Some RUNNING)] @ post
               \<and> (\<forall>i' fs'. Set_Output_Files i' fs' \<notin> set pre)))"
proof (cases rule: run_a_job_cases [where w = w and job_id = job_id and force = force and e = e])
  case conflict
  from conflict(1) new_events_append [OF conflict(2)] show ?thesis by auto
next
  case (missing_manifest j)
  from missing_manifest(1,3) new_events_append [OF missing_manifest(4)] show ?thesis by auto
next
  case (pipeline_failed j exc)
  from pipeline_failed(1,4) new_events_append [OF pipeline_failed(5)] show ?thesis by auto
next
  case (enumeration_failed j lg exc)
  from enumeration_failed(1,5) new_events_append [OF enumeration_failed(6)] show ?thesis by auto
next
  case (not_running j lg files)
  let ?pre = "[Log LogInfo (''About to run job '' @ str_int job_id),
        Change_State job_id RUNNING (''Job is about to be run on host '' @ gethostname e)
          (if force then None else Some WAITING),
        Get_Job job_id,
        Log LogDebug (''Launching jsawrapdr: mode='' @ mode j @ '', parameters='' @ parameters j),
        Jsawrapdr_Run job_id (input_file_list e job_id) (mode j) (parameters j)
          ''cadc'' ''JAC'' True,
        Log LogDebug ''Preparing list of output files'',
        Get_Output_Files job_id,
        Log LogDebug ''Storing list of output files'']"
  have evs: "new_events w (snd (run_a_job e job_id force w)) =
      ?pre @ [Set_Output_Files job_id files,
              Change_State job_id PROCESSED ''Job has been sucessfully processed'' (Some RUNNING)]
           @ [Change_State job_id ERROR ''NoRowsError: job'' None]"
    using new_events_append [OF not_running(6)] by simp
  have pre: "\<forall>i' fs'. Set_Output_Files i' fs' \<notin> set ?pre" by simp
  have first: "(\<exists>i fs. Set_Output_Files i fs \<in> set (new_events w (snd (run_a_job e job_id force w))))
      \<longleftrightarrow> (\<exists>j lg fs. map_of (db w) job_id = Some j \<and> (force \<or> state j = WAITING)
             \<and> input_file_list e job_id \<in> set (paths w)
             \<and> jsawrapdr_run e job_id (input_file_list e job_id) (mode j) (parameters j)
                  ''cadc'' ''JAC'' True = Inr lg
             \<and> get_output_files e job_id = Inr fs)"
    using not_running(1-5) evs by auto
  have second: "i = job_id \<and> get_output_files e job_id = Inr fs
          \<and> (\<exists>pre post. new_events w (snd (run_a_job e job_id force w)) =
                 pre @ [Set_Output_Files job_id fs,
                        Change_State job_id PROCESSED ''Job has been sucessfully processed''
                          (Some RUNNING)] @ post
               \<and> (\<forall>i' fs'. Set_Output_Files i' fs' \<notin> set pre))"
    if "Set_Output_Files i fs \<in> set (new_events w (snd (run_a_job e job_id force w)))"
  proof -
    from that evs have eq: "i = job_id" "fs = files" by auto
    with not_running(5) evs pre show ?thesis by blast
  qed
  from first second show ?thesis by blast
next
  case (processed j lg files)
  let ?pre = "[Log LogInfo (''About to run job '' @ str_int job_id),
        Change_State job_id RUNNING (''Job is about to be run on host '' @ gethostname e)
          (if force then None else Some WAITING),
        Get_Job job_id,
        Log LogDebug (''Launching jsawrapdr: mode='' @ mode j @ '', parameters='' @ parameters j),
        Jsawrapdr_Run job_id (input_file_list e job_id) (mode j) (parameters j)
          ''cadc'' ''JAC'' True,
        Log LogDebug ''Preparing list of output files'',
        Get_Output_Files job_id,
        Log LogDebug ''Storing list of output files'']"
  have evs: "new_events w (snd (run_a_job e job_id force w)) =
      ?pre @ [Set_Output_Files job_id files,
              Change_State job_id PROCESSED ''Job has been sucessfully processed'' (Some RUNNING)]
           @ [Log LogInfo (''Done running job '' @ str_int job_id)]"
    using new_events_append [OF processed(6)] by simp
  have pre: "\<forall>i' fs'. Set_Output_Files i' fs' \<notin> set ?pre" by simp
  have first: "(\<exists>i fs. Set_Output_Files i fs \<in> set (new_events w (snd (run_a_job e job_id force w))))
      \<longleftrightarrow> (\<exists>j lg fs. map_of (db w) job_id = Some j \<and> (force \<or> state j = WAITING)
             \<and> input_file_list e job_id \<in> set (paths w)
             \<and> jsawrapdr_run e job_id (input_file_list e job_id) (mode j) (parameters j)
                  ''cadc'' ''JAC'' True = Inr lg
             \<and> get_output_files e job_id = Inr fs)"
    using processed(1-5) evs by auto
  have second: "i = job_id \<and> get_output_files e job_id = Inr fs
          \<and> (\<exists>pre post. new_events w (snd (run_a_job e job_id force w)) =
                 pre @ [Set_Output_Files job_id fs,
                        Change_State job_id PROCESSED ''Job has been sucessfully processed''
                          (Some RUNNING)] @ post
               \<and> (\<forall>i' fs'. Set_Output_Files i' fs' \<notin> set pre))"
    if "Set_Output_Files i fs \<in> set (new_events w (snd (run_a_job e job_id force w)))"
  proof -
    from that evs have eq: "i = job_id" "fs = files" by auto
    with processed(5) evs pre show ?thesis by blast
  qed
  from first second show ?thesis by blast
qed

theorem run_a_job_output_files_after_enumeration_witness:
  "Set_Output_Files 7 [''a.fits'']
     \<in> set (new_events waiting_world (snd (run_a_job host_env 7 False waiting_world)))
   \<and> get_output_files host_env 7 = Inr [''a.fits'']
   \<and> (\<exists>pre post. new_events waiting_world (snd (run_a_job host_env 7 False waiting_world)) =
          pre @ [Set_Output_Files 7 [''a.fits''],
                 Change_State 7 PROCESSED ''Job has been sucessfully processed'' (Some RUNNING)]
              @ post
        \<and> (\<forall>i' fs'. Set_Output_Files i' fs' \<notin> set pre))"
proof -
  have called: "Set_Output_Files 7 [''a.fits'']
     \<in> set (new_events waiting_world (snd (run_a_job host_env 7 False waiting_world)))"
    by (simp add: new_events_def run_defs host_env_def waiting_world_def job7_def str_int_7)
  from run_a_job_output_files_after_enumeration
         [of waiting_world host_env 7 False 7 "[''a.fits'']"] called
  show ?thesis by blast
qed

text \<open>
  The claim C2 says the output files are set only after the transition to
  \<open>PROCESSED\<close> has succeeded, and never for a job that ends in \<open>ERROR\<close>. Job 7 is claimed
  and its pipeline succeeds; while the pipeline runs, an operator forces the job back
  to \<open>WAITING\<close>. The worker sets the output files, its transition to \<open>PROCESSED\<close> then
  finds the job not \<open>RUNNING\<close>, and the job ends in \<open>ERROR\<close> with the output files set.
  The call that sets them precedes the request for the transition.
\<close>

theorem output_files_set_for_job_ending_in_ERROR:
  "run_a_job (host_env\<lparr>others := [Other_Change_State 7 WAITING ''requeued by an operator'' None]\<rparr>)
     7 False waiting_world =
     (Inr None,
      \<lparr>db = [(7, job7\<lparr>state := ERROR,
                     output_files := [''a.fits''],
                     log := [(RUNNING, ''Job is about to be run on host h''),
                             (WAITING, ''requeued by an operator''),
                             (ERROR, ''NoRowsError: job'')]\<rparr>)],
       paths = [''/in/7/input_files_job.lis''],
       trace = [Log LogInfo ''About to run job 7'',
                Change_State 7 RUNNING ''Job is about to be run on host h'' (Some WAITING),
                Get_Job 7,
                Log LogDebug ''Launching jsawrapdr: mode=obs, parameters='',
                Jsawrapdr_Run 7 ''/in/7/input_files_job.lis'' ''obs'' [] ''cadc'' ''JAC'' True,
                Log LogDebug ''Preparing list of output files'',
                Get_Output_Files 7,
                Log LogDebug ''Storing list of output files'',
                Set_Output_Files 7 [''a.fits''],
                Change_State 7 PROCESSED ''Job has been sucessfully processed'' (Some RUNNING),
                Change_State 7 ERROR ''NoRowsError: job'' None]\<rparr>)"
  by (simp add: run_defs host_env_def waiting_world_def job7_def str_int_7)

subsection \<open>Forced and normal claims\<close>

lemma run_a_job_claim_attempts:
  "\<exists>evs. trace (snd (run_a_job e job_id force w)) = trace w @ evs
         \<and> claim_attempts evs = [(job_id, if force then None else Some WAITING)]"
  by (cases rule: run_a_job_cases [where w = w and job_id = job_id and force = force and e = e])
     simp_all

lemma snd_and_then_return: "snd (and_then p (\<lambda>_. return x) w) = snd (p w)"
  by (simp add: and_then_def return_def split: prod.splits sum.splits)

text \<open>
  C6: with \<^verbatim>\<open>force\<close> set, the claim is made with no expected prior state and applies
  to a job of the table whatever its state is: the run goes on with the job
  \<open>RUNNING\<close>. \<^verbatim>\<open>run_job\<close> passes \<^verbatim>\<open>force\<close> on only when it is given a job id. Without
  one, the value of \<^verbatim>\<open>force\<close> makes no difference, and the only claim the run
  attempts, if it finds a job, expects the prior state \<open>WAITING\<close>.
\<close>

theorem forced_claim_unconditional_normal_claim_expects_WAITING:
  "(map_of (db w) job_id = Some j \<longrightarrow>
      run_a_job_body e job_id True w =
        run_claimed_job e job_id
          (w\<lparr>db := AList.update job_id
                  (j\<lparr>state := RUNNING,
                     log := log j @
                       [(RUNNING, ''Job is about to be run on host '' @ gethostname e)]\<rparr>) (db w),
             trace := trace w @
               [Log LogInfo (''About to run job '' @ str_int job_id),
                Change_State job_id RUNNING
                  (''Job is about to be run on host '' @ gethostname e) None]\<rparr>))
   \<and> (job_id \<noteq> 0 \<longrightarrow>
        run_job e (Some job_id) force w = and_then (run_a_job e job_id force) (\<lambda>_. return ()) w)
   \<and> run_job e None force w = run_job e None False w
   \<and> claim_attempts (new_events w (snd (run_job e None force w))) =
       (case find_jobs WAITING ''JAC'' True 1 True (db w) of
          [] \<Rightarrow> []
        | s # rest \<Rightarrow> [(fst s, Some WAITING)])"
proof -
  have forced: "run_a_job_body e job_id True w =
        run_claimed_job e job_id
          (w\<lparr>db := AList.update job_id
                  (j\<lparr>state := RUNNING,
                     log := log j @
                       [(RUNNING, ''Job is about to be run on host '' @ gethostname e)]\<rparr>) (db w),
             trace := trace w @
               [Log LogInfo (''About to run job '' @ str_int job_id),
                Change_State job_id RUNNING
                  (''Job is about to be run on host '' @ gethostname e) None]\<rparr>)"
    if row: "map_of (db w) job_id = Some j"
    using run_a_job_body_claimed [OF claim_succeeds [OF row, of True], of e] by simp
  have reset: "run_job e None force w = run_job e None False w"
    by (simp add: run_job_selects)
  have attempts: "claim_attempts (new_events w (snd (run_job e None force w))) =
       (case find_jobs WAITING ''JAC'' True 1 True (db w) of
          [] \<Rightarrow> []
        | s # rest \<Rightarrow> [(fst s, Some WAITING)])"
  proof (cases "find_jobs WAITING ''JAC'' True 1 True (db w)")
    case Nil
    then show ?thesis by (simp add: run_job_selects new_events_def)
  next
    case (Cons s rest)
    let ?w0 = "w\<lparr>trace := trace w @
               [Log LogDebug ''Looking for a job to run'',
                Find_Jobs WAITING ''JAC'' True 1 True]\<rparr>"
    from run_a_job_claim_attempts [of e "fst s" False ?w0]
    obtain evs where evs: "trace (snd (run_a_job e (fst s) False ?w0)) = trace ?w0 @ evs"
      and claims: "claim_attempts evs = [(fst s, Some WAITING)]"
      by auto
    from Cons have "snd (run_job e None force w) = snd (run_a_job e (fst s) False ?w0)"
      by (simp add: run_job_selects snd_and_then_return)
    with evs have "new_events w (snd (run_job e None force w)) =
        [Log LogDebug ''Looking for a job to run'', Find_Jobs WAITING ''JAC'' True 1 True] @ evs"
      by (simp add: new_events_def)
    with claims Cons show ?thesis by simp
  qed
  from forced run_job_explicit [of job_id e force w] reset attempts show ?thesis by blast
qed

theorem forced_claim_unconditional_normal_claim_expects_WAITING_witness:
  "map_of (db (waiting_world\<lparr>db := [(7, job7\<lparr>state := PROCESSED\<rparr>)]\<rparr>)) 7
     = Some (job7\<lparr>state := PROCESSED\<rparr>)
   \<and> run_a_job_body host_env 7 True (waiting_world\<lparr>db := [(7, job7\<lparr>state := PROCESSED\<rparr>)]\<rparr>) =
       run_claimed_job host_env 7
         (waiting_world
            \<lparr>db := [(7, job7\<lparr>state := RUNNING,
                            log := [(RUNNING, ''Job is about to be run on host h'')]\<rparr>)],
             trace := [Log LogInfo ''About to run job 7'',
                       Change_State 7 RUNNING ''Job is about to be run on host h'' None]\<rparr>)
   \<and> run_job host_env (Some 7) True waiting_world =
       and_then (run_a_job host_env 7 True) (\<lambda>_. return ()) waiting_world
   \<and> run_job host_env None True waiting_world = run_job host_env None False waiting_world
   \<and> claim_attempts (new_events waiting_world (snd (run_job host_env None True waiting_world))) =
       [(7, Some WAITING)]"
proof -
  have row: "map_of (db (waiting_world\<lparr>db := [(7, job7\<lparr>state := PROCESSED\<rparr>)]\<rparr>)) 7
     = Some (job7\<lparr>state := PROCESSED\<rparr>)"
    by simp
  have found: "find_jobs WAITING ''JAC'' True 1 True (db waiting_world) = [(7, job7)]"
    by (simp add: find_jobs_def waiting_world_def job7_def)
  note forced = forced_claim_unconditional_normal_claim_expects_WAITING
         [of "waiting_world\<lparr>db := [(7, job7\<lparr>state := PROCESSED\<rparr>)]\<rparr>" 7 "job7\<lparr>state := PROCESSED\<rparr>"
             host_env True]
  note normal = forced_claim_unconditional_normal_claim_expects_WAITING
         [of waiting_world 7 job7 host_env True]
  from forced row
  have "run_a_job_body host_env 7 True (waiting_world\<lparr>db := [(7, job7\<lparr>state := PROCESSED\<rparr>)]\<rparr>) =
       run_claimed_job host_env 7
         (waiting_world
            \<lparr>db := [(7, job7\<lparr>state := RUNNING,
                            log := [(RUNNING, ''Job is about to be run on host h'')]\<rparr>)],
             trace := [Log LogInfo ''About to run job 7'',
                       Change_State 7 RUNNING ''Job is about to be run on host h'' None]\<rparr>)"
    by (simp add: host_env_fields str_int_7 job7_def waiting_world_def)
  moreover from normal
  have "run_job host_env (Some 7) True waiting_world =
       and_then (run_a_job host_env 7 True) (\<lambda>_. return ()) waiting_world"
    by simp
  moreover from normal
  have "run_job host_env None True waiting_world = run_job host_env None False waiting_world"
    by blast
  moreover from normal
  have "claim_attempts (new_events waiting_world (snd (run_job host_env None True waiting_world))) =
       (case find_jobs WAITING ''JAC'' True 1 True (db waiting_world) of
          [] \<Rightarrow> []
        | s # rest \<Rightarrow> [(fst s, Some WAITING)])"
    by blast
  then have "claim_attempts (new_events waiting_world (snd (run_job host_env None True waiting_world))) =
       [(7, Some WAITING)]"
    using found by simp
  ultimately show ?thesis using row by blast
qed

subsection \<open>After a successful pipeline\<close>



section \<open>Raw ingestion\<close>

lemmas ingest_defs = ingest_raw_observation_def and_then_def return_def raise_def try_except_def
  logger_def record_event_def os_path_exists_def call_make_misc_scratch_dir_def os_makedirs_def
  open_for_writing_def subprocess_check_call_def shutil_rmtree_def









lemma ingest_dry_run:
  assumes "obsid_date_search obsid = Some date"
  shows "paths (snd (ingest_raw_observation e obsid True w)) = paths w"
  using assms by (simp add: ingest_defs)






end
